theory Spec2Isabelle
  imports Complex_Main
begin

section \<open>Numbers, arrays and errors\<close>

text \<open>
  Python floats are modelled as exact rationals plus the not-a-number value that
  \<open>numpy.mean\<close> yields on an empty selection. Rounding is not modelled; every constant of
  the source (\<open>0.01\<close>, \<open>1.2\<close>, \<open>0.3\<close>) is the rational its decimal literal denotes.
\<close>

datatype flt = Num rat | NaN

type_synonym matrix = "flt list list"

text \<open>
  The exceptions the modelled code can raise: \<open>ValueError\<close> (a failed \<open>float()\<close>, a numpy
  shape mismatch, a negative dimension), \<open>IndexError\<close> (a numpy write outside an axis) and
  any other exception class, carried by name, that an external library raises.
\<close>

datatype error = ValueError | IndexError | Other string

section \<open>Resource estimator (main_wf.py)\<close>

record mem_gb =
  filesize :: rat
  resampled :: rat
  largemem :: rat

text \<open>
  \<open>_create_mem_gb(bold_fname)\<close>, named here without its leading underscore (as
  \<open>_run_interface\<close> is below): the file enters as the two numbers the function reads
  from it, \<open>os.path.getsize(bold_fname)\<close> and \<open>nb.load(bold_fname).shape[-1]\<close>. The
  division \<open>bold_tlen / 100\<close> is Python 3 true division.
\<close>

definition create_mem_gb :: "nat \<Rightarrow> nat \<Rightarrow> nat \<times> mem_gb" where
  "create_mem_gb bold_size bold_tlen =
     (let bold_size_gb = rat_of_nat bold_size / (1024 ^ 3)
      in (bold_tlen,
          \<lparr> filesize = bold_size_gb,
            resampled = bold_size_gb * 4,
            largemem = bold_size_gb * (max (rat_of_nat bold_tlen / 100) 1 + 4) \<rparr>))"


section \<open>Confound regression engine (confounds.py)\<close>

subsection \<open>The numpy operations the engine uses\<close>

text \<open>\<open>np.zeros([n, k])\<close>; a two-dimensional array is the list of its rows.\<close>

definition np_zeros :: "nat \<Rightarrow> nat \<Rightarrow> matrix" where
  "np_zeros n k = replicate n (replicate k (Num 0))"

text \<open>
  \<open>np.mean(a, 1)\<close>: the mean of every row. The mean of an empty row is \<open>nan\<close> (with a
  warning, no exception), and a \<open>nan\<close> entry makes the mean \<open>nan\<close>.
\<close>

fun sum_flt :: "flt list \<Rightarrow> flt" where
  "sum_flt [] = Num 0"
| "sum_flt (NaN # xs) = NaN"
| "sum_flt (Num x # xs) = (case sum_flt xs of NaN \<Rightarrow> NaN | Num s \<Rightarrow> Num (x + s))"

definition mean_flt :: "flt list \<Rightarrow> flt" where
  "mean_flt xs =
     (if xs = [] then NaN
      else case sum_flt xs of NaN \<Rightarrow> NaN | Num s \<Rightarrow> Num (s / rat_of_nat (length xs)))"

definition np_mean_axis1 :: "matrix \<Rightarrow> flt list" where
  "np_mean_axis1 a = map mean_flt a"

text \<open>
  \<open>a[:, c] = v\<close> for a one-dimensional \<open>v\<close>: numpy broadcasts \<open>v\<close> to the column, which
  succeeds when \<open>v\<close> has as many entries as \<open>a\<close> has rows, or exactly one entry; any other
  length raises \<open>ValueError\<close>.
\<close>

definition assign_column :: "matrix \<Rightarrow> nat \<Rightarrow> flt list \<Rightarrow> error + matrix" where
  "assign_column a c v =
     (if length v = length a then Inr (map2 (\<lambda>row x. row[c := x]) a v)
      else if length v = 1 then Inr (map (\<lambda>row. row[c := hd v]) a)
      else Inl ValueError)"

text \<open>
  \<open>a[:, lo:hi] = b\<close> for a two-dimensional \<open>b\<close> with \<open>hi - lo\<close> columns: the rows of \<open>b\<close>
  are written into columns \<open>lo..hi-1\<close>; \<open>b\<close> is broadcast along the row axis when it has
  exactly one row, and any other row count than that of \<open>a\<close> raises \<open>ValueError\<close>.
\<close>

definition write_block :: "nat \<Rightarrow> flt list \<Rightarrow> flt list \<Rightarrow> flt list" where
  "write_block lo row brow = take lo row @ brow @ drop (lo + length brow) row"

definition assign_block :: "matrix \<Rightarrow> nat \<Rightarrow> matrix \<Rightarrow> error + matrix" where
  "assign_block a lo b =
     (if length b = length a then Inr (map2 (write_block lo) a b)
      else if length b = 1 then Inr (map (\<lambda>row. write_block lo row (hd b)) a)
      else Inl ValueError)"

text \<open>\<open>np.r_[0:3, 4:9]\<close>: the concatenation of the two ranges.\<close>

definition np_r :: "(nat \<times> nat) list \<Rightarrow> nat list" where
  "np_r slices = concat (map (\<lambda>(lo, hi). [lo..<hi]) slices)"

text \<open>\<open>a[:, idx]\<close> for an index list: the listed columns of every row, in the listed order.\<close>

definition take_columns :: "matrix \<Rightarrow> nat list \<Rightarrow> matrix" where
  "take_columns a idx = map (\<lambda>row. map (\<lambda>i. row ! i) idx) a"

subsection \<open>extract\_rigid\_movpar\<close>

text \<open>
  The motion table enters as the rows \<open>csv.reader\<close> yields (a list of string fields per
  line). Python's \<open>float()\<close> is a parameter \<open>pyfloat\<close>: \<open>None\<close> is the \<open>ValueError\<close> it
  raises on a field that is no number.

  The inner loop \<open>for i in range(2, len(row))\<close> evaluates \<open>float(row[i])\<close> first and then
  writes \<open>movpar[j, i-2]\<close>; the row of \<open>movpar\<close> has 6 entries, and a write at index 6 or
  beyond raises \<open>IndexError\<close>.
\<close>

fun set_fields :: "(string \<Rightarrow> flt option) \<Rightarrow> string list \<Rightarrow> flt list \<Rightarrow> nat list
    \<Rightarrow> error + flt list" where
  "set_fields pyfloat row mrow [] = Inr mrow"
| "set_fields pyfloat row mrow (i # is) =
     (case pyfloat (row ! i) of
        None \<Rightarrow> Inl ValueError
      | Some v \<Rightarrow>
          if i - 2 < length mrow then set_fields pyfloat row (mrow[i - 2 := v]) is
          else Inl IndexError)"

text \<open>The outer loop \<open>for row in temp[1:]\<close> with its counter \<open>j\<close>.\<close>

fun fill_rows :: "(string \<Rightarrow> flt option) \<Rightarrow> matrix \<Rightarrow> nat \<Rightarrow> string list list
    \<Rightarrow> error + matrix" where
  "fill_rows pyfloat movpar j [] = Inr movpar"
| "fill_rows pyfloat movpar j (row # rest) =
     (case set_fields pyfloat row (movpar ! j) [2..<length row] of
        Inl e \<Rightarrow> Inl e
      | Inr r \<Rightarrow> fill_rows pyfloat (movpar[j := r]) (j + 1) rest)"

text \<open>
  \<open>np.zeros([len(temp)-1, 6])\<close> raises \<open>ValueError\<close> (negative dimension) when the file
  has no line at all.
\<close>

definition extract_rigid_movpar :: "(string \<Rightarrow> flt option) \<Rightarrow> string list list
    \<Rightarrow> error + matrix" where
  "extract_rigid_movpar pyfloat temp =
     (if temp = [] then Inl ValueError
      else fill_rows pyfloat (np_zeros (length temp - 1) 6) 0 (tl temp))"

text \<open>Every row of an array has six entries.\<close>

definition rows6 :: "matrix \<Rightarrow> bool" where
  "rows6 m = list_all (\<lambda>r. length r = 6) m"

subsection \<open>External libraries and files\<close>

text \<open>
  The keyword arguments of the call of \<open>nilearn.image.clean_img\<close> in \<open>clean_bold\<close>.
\<close>

record clean_img_args =
  detrend :: bool
  standardize :: bool
  high_pass :: rat
  confounds :: matrix
  t_r :: rat

text \<open>
  The library functions the engine calls are parameters of the model, over any type \<open>'i\<close>
  of images: \<open>nilearn.masking.apply_mask(bold, mask)\<close> (a timepoints by voxels array),
  \<open>nilearn.image.clean_img\<close>, \<open>nilearn.image.smooth_img\<close> and Python's \<open>float\<close>. Each may
  raise.
\<close>

record 'i backend =
  apply_mask :: "'i \<Rightarrow> 'i \<Rightarrow> error + matrix"
  clean_img :: "'i \<Rightarrow> clean_img_args \<Rightarrow> error + 'i"
  smooth_img :: "'i \<Rightarrow> rat \<Rightarrow> error + 'i"
  pyfloat :: "string \<Rightarrow> flt option"

text \<open>
  The two files the engine writes into its working directory, \<open>confounds.csv\<close> and
  \<open>cleaned.nii.gz\<close>; \<open>None\<close> is a file not written. A CSV file is the list of its lines,
  each the list of its fields; number formatting is not modelled.
\<close>

datatype csv_field = Text string | Index nat | Value flt

record 'i files =
  confounds_file :: "csv_field list list option"
  cleaned_file :: "'i option"

text \<open>
  A pandas data frame and \<open>df.to_csv(path)\<close> with its defaults \<open>header=True\<close>,
  \<open>index=True\<close>: the header line is an empty field (the unnamed index) followed by the
  column labels, and every data line is the row's index label followed by its values.
\<close>

record dataframe =
  df_columns :: "string list"
  df_index :: "nat list"
  df_data :: matrix

definition to_csv :: "dataframe \<Rightarrow> csv_field list list" where
  "to_csv df =
     (Text [] # map Text (df_columns df))
     # map2 (\<lambda>i row. Index i # map Value row) (df_index df) (df_data df)"

subsection \<open>ConfoundRegression\<close>

record 'i inputs =
  bold :: 'i
  movpar_file :: "string list list"
  brain_mask :: 'i
  WM_mask :: 'i
  CSF_mask :: 'i
  apply_GSR :: bool
  motioncorr_24params :: bool

record outputs =
  cleaned_bold :: string
  confounds_csv :: string

definition extract_mask_trace :: "'i backend \<Rightarrow> 'i \<Rightarrow> 'i \<Rightarrow> error + flt list" where
  "extract_mask_trace bk b msk =
     (case apply_mask bk b msk of
        Inl e \<Rightarrow> Inl e
      | Inr mask_signal \<Rightarrow> Inr (np_mean_axis1 mask_signal))"

text \<open>
  \<open>write_confound_csv\<close>: \<open>pd.DataFrame(confound_array)\<close> has the range index
  \<open>0..n-1\<close>; \<open>df.columns = column_names\<close> raises \<open>ValueError\<close> unless there is one name
  per column.
\<close>

definition write_confound_csv :: "matrix \<Rightarrow> string list \<Rightarrow> 'i files
    \<Rightarrow> (error + string) \<times> 'i files" where
  "write_confound_csv confound_array column_names fs =
     (if list_all (\<lambda>row. length row = length column_names) confound_array then
        let df = \<lparr> df_columns = column_names,
                   df_index = [0..<length confound_array],
                   df_data = confound_array \<rparr>
        in (Inr ''confounds.csv'', fs\<lparr>confounds_file := Some (to_csv df)\<rparr>)
      else (Inl ValueError, fs))"

definition clean_bold :: "'i backend \<Rightarrow> 'i \<Rightarrow> matrix \<Rightarrow> 'i files
    \<Rightarrow> (error + string) \<times> 'i files" where
  "clean_bold bk b confounds_array fs =
     (case clean_img bk b \<lparr> detrend = True, standardize = True, high_pass = 1 / 100,
                            confounds = confounds_array, t_r = 12 / 10 \<rparr> of
        Inl e \<Rightarrow> (Inl e, fs)
      | Inr regressed_bold \<Rightarrow>
          (case smooth_img bk regressed_bold (3 / 10) of
             Inl e \<Rightarrow> (Inl e, fs)
           | Inr cleaned \<Rightarrow> (Inr ''cleaned.nii.gz'', fs\<lparr>cleaned_file := Some cleaned\<rparr>)))"

definition num_confounds :: nat where
  "num_confounds = 9"

definition csv_columns :: "string list" where
  "csv_columns = [''WM_signal'', ''CSF_signal'', ''global_signal'',
                  ''mov1'', ''mov2'', ''mov3'', ''rot1'', ''rot2'', ''rot3'']"

text \<open>Lines 109 to 115 of \<open>_run_interface\<close>: the confound matrix.\<close>

definition build_confounds :: "'i backend \<Rightarrow> 'i inputs \<Rightarrow> error + matrix" where
  "build_confounds bk inp =
     (case extract_mask_trace bk (bold inp) (WM_mask inp) of
        Inl e \<Rightarrow> Inl e
      | Inr WM_signal \<Rightarrow>
     (case assign_column (np_zeros (length WM_signal) num_confounds) 0 WM_signal of
        Inl e \<Rightarrow> Inl e
      | Inr c0 \<Rightarrow>
     (case extract_mask_trace bk (bold inp) (CSF_mask inp) of
        Inl e \<Rightarrow> Inl e
      | Inr CSF_signal \<Rightarrow>
     (case assign_column c0 1 CSF_signal of
        Inl e \<Rightarrow> Inl e
      | Inr c1 \<Rightarrow>
     (case extract_mask_trace bk (bold inp) (brain_mask inp) of
        Inl e \<Rightarrow> Inl e
      | Inr global_signal \<Rightarrow>
     (case assign_column c1 2 global_signal of
        Inl e \<Rightarrow> Inl e
      | Inr c2 \<Rightarrow>
     (case extract_rigid_movpar (pyfloat bk) (movpar_file inp) of
        Inl e \<Rightarrow> Inl e
      | Inr movpar \<Rightarrow> assign_block c2 3 movpar)))))))"

text \<open>
  The matrix handed to \<open>clean_bold\<close> (lines 119 to 122): the whole matrix with the flag,
  \<open>confounds[:, np.r_[0:3,4:9]]\<close> without it.
\<close>

definition regressed_confounds :: "bool \<Rightarrow> matrix \<Rightarrow> matrix" where
  "regressed_confounds gsr conf =
     (if gsr then conf else take_columns conf (np_r [(0, 3), (4, 9)]))"

text \<open>
  \<open>_run_interface\<close>: the table is written before the series is cleaned; an exception
  leaves the files as they are at that point.
\<close>

definition run_interface :: "'i backend \<Rightarrow> 'i inputs \<Rightarrow> 'i files
    \<Rightarrow> (error + outputs) \<times> 'i files" where
  "run_interface bk inp fs =
     (case build_confounds bk inp of
        Inl e \<Rightarrow> (Inl e, fs)
      | Inr conf \<Rightarrow>
     (case write_confound_csv conf csv_columns fs of
        (Inl e, fs1) \<Rightarrow> (Inl e, fs1)
      | (Inr csv_path, fs1) \<Rightarrow>
     (case clean_bold bk (bold inp) (regressed_confounds (apply_GSR inp) conf) fs1 of
        (Inl e, fs2) \<Rightarrow> (Inl e, fs2)
      | (Inr cleaned, fs2) \<Rightarrow>
          (Inr \<lparr> cleaned_bold = cleaned, confounds_csv = csv_path \<rparr>, fs2))))"

subsection \<open>A recording backend\<close>

text \<open>
  A stand-in for the libraries, used to run the engine on concrete inputs: images are
  terms that record what was done to them. A series is its list of volumes, each the
  list of its voxel values; a mask is one flag per voxel. Masking selects the flagged
  voxels of every volume and, as nilearn does, raises \<open>ValueError\<close> on a mask that
  selects no voxel; cleaning and smoothing record their arguments. \<open>float\<close> is
  restricted to unsigned decimal integer literals.
\<close>

datatype img =
    Series matrix
  | Mask "bool list"
  | Cleaned img clean_img_args
  | Smoothed img rat

fun rec_apply_mask :: "img \<Rightarrow> img \<Rightarrow> error + matrix" where
  "rec_apply_mask (Series vols) (Mask m) =
     (if list_ex (\<lambda>flag. flag) m
      then Inr (map (\<lambda>vol. map fst (filter snd (zip vol m))) vols)
      else Inl ValueError)"
| "rec_apply_mask b m = Inl (Other ''TypeError'')"

fun digits_value :: "nat \<Rightarrow> string \<Rightarrow> nat option" where
  "digits_value acc [] = Some acc"
| "digits_value acc (c # cs) =
     (let d = (of_char c :: nat)
      in if 48 \<le> d \<and> d \<le> 57 then digits_value (10 * acc + (d - 48)) cs else None)"

definition rec_float :: "string \<Rightarrow> flt option" where
  "rec_float s =
     (if s = [] then None
      else case digits_value 0 s of None \<Rightarrow> None | Some n \<Rightarrow> Some (Num (rat_of_nat n)))"

definition rec_backend :: "img backend" where
  "rec_backend =
     \<lparr> apply_mask = rec_apply_mask,
       clean_img = (\<lambda>b args. Inr (Cleaned b args)),
       smooth_img = (\<lambda>b fwhm. Inr (Smoothed b fwhm)),
       pyfloat = rec_float \<rparr>"

definition no_files :: "img files" where
  "no_files = \<lparr> confounds_file = None, cleaned_file = None \<rparr>"

text \<open>The arguments of the \<open>clean_img\<close> call recorded in a cleaned and smoothed image.\<close>

fun clean_args_of :: "img \<Rightarrow> clean_img_args option" where
  "clean_args_of (Smoothed (Cleaned b args) fwhm) = Some args"
| "clean_args_of i = None"

subsection \<open>Reading the confound table\<close>

text \<open>
  Modelled from the spec: reading the confound table back. The sources write the table
  and never read it; the reader takes the first line of the file as the column labels
  and every other line as one row of cells.
\<close>

record csv_table =
  tb_columns :: "csv_field list"
  tb_rows :: "csv_field list list"

fun read_csv :: "csv_field list list \<Rightarrow> csv_table option" where
  "read_csv [] = None"
| "read_csv (header # lines) = Some \<lparr> tb_columns = header, tb_rows = lines \<rparr>"

section \<open>Workflow graphs (nipype)\<close>

text \<open>
  A nipype workflow is a directed graph: \<open>workflow.connect\<close> takes a list of
  \<open>(source, destination, [(output port, input port), ...])\<close> and adds one edge per port
  pair, adding the two nodes when the graph does not hold them yet. A graph is therefore
  the list of its edges, in the order of the calls, and its nodes are the end points of
  its edges.
\<close>

record 'n workflow =
  wf_name :: string
  wf_edges :: "('n \<times> string \<times> 'n \<times> string) list"

definition Workflow :: "string \<Rightarrow> 'n workflow" where
  "Workflow name = \<lparr> wf_name = name, wf_edges = [] \<rparr>"

definition connect :: "'n workflow \<Rightarrow> ('n \<times> 'n \<times> (string \<times> string) list) list
    \<Rightarrow> 'n workflow" where
  "connect g conns =
     g\<lparr> wf_edges := wf_edges g
           @ concat (map (\<lambda>(src, dst, ports).
                             map (\<lambda>(out_port, in_port). (src, out_port, dst, in_port)) ports)
                         conns) \<rparr>"

definition wf_nodes :: "'n workflow \<Rightarrow> 'n list" where
  "wf_nodes g = remdups (concat (map (\<lambda>(src, out_port, dst, in_port). [src, dst]) (wf_edges g)))"

text \<open>The edges into a node, the producers of one of its input ports, the edges out of a node.\<close>

definition incoming :: "'n workflow \<Rightarrow> 'n \<Rightarrow> ('n \<times> string \<times> string) list" where
  "incoming g n =
     map (\<lambda>(src, out_port, dst, in_port). (src, out_port, in_port))
         (filter (\<lambda>(src, out_port, dst, in_port). dst = n) (wf_edges g))"

definition producers :: "'n workflow \<Rightarrow> 'n \<Rightarrow> string \<Rightarrow> ('n \<times> string) list" where
  "producers g n port =
     map (\<lambda>(src, out_port, dst, in_port). (src, out_port))
         (filter (\<lambda>(src, out_port, dst, in_port). dst = n \<and> in_port = port) (wf_edges g))"

definition outgoing :: "'n workflow \<Rightarrow> 'n \<Rightarrow> (string \<times> 'n \<times> string) list" where
  "outgoing g n =
     map (\<lambda>(src, out_port, dst, in_port). (out_port, dst, in_port))
         (filter (\<lambda>(src, out_port, dst, in_port). src = n) (wf_edges g))"

definition consumers :: "'n workflow \<Rightarrow> 'n \<Rightarrow> string \<Rightarrow> ('n \<times> string) list" where
  "consumers g n port =
     map (\<lambda>(src, out_port, dst, in_port). (dst, in_port))
         (filter (\<lambda>(src, out_port, dst, in_port). src = n \<and> out_port = port) (wf_edges g))"

definition touching :: "'n workflow \<Rightarrow> ('n \<Rightarrow> bool) \<Rightarrow> ('n \<times> string \<times> 'n \<times> string) list" where
  "touching g P =
     filter (\<lambda>(src, out_port, dst, in_port). P src \<or> P dst) (wf_edges g)"

subsection \<open>init\_bold\_confs\_wf (confounds.py)\<close>

text \<open>
  The interfaces of the nodes of the confound workflow, with their constructor arguments:
  \<open>IdentityInterface(fields)\<close>, \<open>MaskEPI(use_transforms)\<close>, \<open>Skullstrip()\<close> and
  \<open>ConfoundRegression(apply_GSR, motioncorr_24params)\<close>. A node is \<open>pe.Node(interface, name)\<close>.
\<close>

datatype interface =
    IdentityInterface "string list"
  | MaskEPI bool
  | Skullstrip
  | ConfoundRegression bool bool

datatype node = Node interface string

fun is_confound_regression :: "node \<Rightarrow> bool" where
  "is_confound_regression (Node (ConfoundRegression gsr m24) name) = True"
| "is_confound_regression n = False"

fun is_GSR_confound_regression :: "node \<Rightarrow> bool" where
  "is_GSR_confound_regression (Node (ConfoundRegression gsr m24) name) = gsr"
| "is_GSR_confound_regression n = False"

text \<open>
  Within a workflow nipype identifies a node by its name; \<open>named\<close> is the graph with every
  node replaced by its name.
\<close>

fun node_name :: "node \<Rightarrow> string" where
  "node_name (Node i name) = name"

definition named :: "node workflow \<Rightarrow> string workflow" where
  "named g =
     \<lparr> wf_name = wf_name g,
       wf_edges = map (\<lambda>(src, out_port, dst, in_port).
                          (node_name src, out_port, node_name dst, in_port)) (wf_edges g) \<rparr>"

definition init_bold_confs_wf :: "bool \<Rightarrow> string \<Rightarrow> node workflow" where
  "init_bold_confs_wf gsr name =
     (let inputnode = Node (IdentityInterface
            [''bold'', ''ref_bold'', ''movpar_file'', ''t1_mask'', ''t1_labels'',
             ''WM_mask'', ''CSF_mask'']) ''inputnode'';
          outputnode = Node (IdentityInterface
            [''cleaned_bold'', ''GSR_cleaned_bold'', ''EPI_labels'', ''confounds_csv''])
            ''outputnode'';
          WM_mask_to_EPI = Node (MaskEPI False) ''WM_mask_EPI'';
          CSF_mask_to_EPI = Node (MaskEPI False) ''CSF_mask_EPI'';
          brain_mask_to_EPI = Node (MaskEPI False) ''Brain_mask_EPI'';
          propagate_labels = Node (MaskEPI False) ''prop_labels_EPI'';
          skullstrip = Node Skullstrip ''skullstrip'';
          confound_regression = Node (ConfoundRegression False False) ''confound_regression'';
          workflow = connect (Workflow name) [
            (inputnode, WM_mask_to_EPI, [
              (''WM_mask'', ''mask''),
              (''ref_bold'', ''ref_EPI'')]),
            (inputnode, CSF_mask_to_EPI, [
              (''CSF_mask'', ''mask''),
              (''ref_bold'', ''ref_EPI'')]),
            (inputnode, brain_mask_to_EPI, [
              (''t1_mask'', ''mask''),
              (''ref_bold'', ''ref_EPI'')]),
            (inputnode, propagate_labels, [
              (''t1_labels'', ''mask''),
              (''ref_bold'', ''ref_EPI'')]),
            (inputnode, confound_regression, [
              (''movpar_file'', ''movpar_file'')]),
            (inputnode, skullstrip, [
              (''bold'', ''in_file'')]),
            (brain_mask_to_EPI, skullstrip, [
              (''EPI_mask'', ''brain_mask'')]),
            (skullstrip, confound_regression, [
              (''skullstrip_brain'', ''bold'')]),
            (WM_mask_to_EPI, confound_regression, [
              (''EPI_mask'', ''WM_mask'')]),
            (CSF_mask_to_EPI, confound_regression, [
              (''EPI_mask'', ''CSF_mask'')]),
            (brain_mask_to_EPI, confound_regression, [
              (''EPI_mask'', ''brain_mask'')]),
            (propagate_labels, outputnode, [
              (''EPI_mask'', ''EPI_labels'')]),
            (confound_regression, outputnode, [
              (''cleaned_bold'', ''cleaned_bold''),
              (''confounds_csv'', ''confounds_csv'')])]
      in if gsr then
           (let GSR_confound_regression =
                  Node (ConfoundRegression True False) ''GSR_confound_regression''
            in connect workflow [
              (inputnode, GSR_confound_regression, [
                (''movpar_file'', ''movpar_file'')]),
              (skullstrip, GSR_confound_regression, [
                (''skullstrip_brain'', ''bold'')]),
              (WM_mask_to_EPI, GSR_confound_regression, [
                (''EPI_mask'', ''WM_mask'')]),
              (CSF_mask_to_EPI, GSR_confound_regression, [
                (''EPI_mask'', ''CSF_mask'')]),
              (brain_mask_to_EPI, GSR_confound_regression, [
                (''EPI_mask'', ''brain_mask'')]),
              (GSR_confound_regression, outputnode, [
                (''cleaned_bold'', ''GSR_cleaned_bold'')])])
         else workflow)"

subsection \<open>init\_func\_preproc\_wf (main\_wf.py)\<close>

text \<open>
  The stages of the main workflow are nodes and nested workflows. The confound workflow is
  nested as the graph \<open>init_bold_confs_wf\<close> builds. The other nested workflows are built
  by functions of other modules (\<open>utils\<close>, \<open>bias_correction\<close>, \<open>stc\<close>, \<open>hmc\<close>,
  \<open>registration\<close>, \<open>resampling\<close>); each is a stage that carries the arguments of the call
  that builds it:
  \<open>init_bold_reference_wf()\<close>, \<open>bias_correction_wf(iterative)\<close>, \<open>init_bold_stc_wf(TR)\<close>,
  \<open>init_bold_hmc_wf(name, mem_gb)\<close>, \<open>init_bold_reg_wf(SyN_reg)\<close> and
  \<open>init_bold_preproc_trans_wf(mem_gb, omp_nthreads, use_fieldwarp, name)\<close>.
\<close>

datatype stage =
    PeNode node
  | Bold_reference_wf
  | Bias_correction_wf bool
  | Bold_stc_wf rat
  | Bold_hmc_wf string rat
  | Bold_reg_wf bool
  | Bold_preproc_trans_wf rat nat bool string
  | Bold_confs_wf "node workflow"

fun is_stc :: "stage \<Rightarrow> bool" where
  "is_stc (Bold_stc_wf tr) = True"
| "is_stc s = False"

text \<open>
  \<open>bold_file\<close> enters as the pair (size in bytes, length of the last axis) that
  \<open>_create_mem_gb\<close> reads from it.
\<close>

definition init_func_preproc_wf :: "nat \<times> nat \<Rightarrow> nat \<Rightarrow> bool \<Rightarrow> rat \<Rightarrow> bool \<Rightarrow> bool \<Rightarrow> bool
    \<Rightarrow> string \<Rightarrow> stage workflow" where
  "init_func_preproc_wf bold_file omp_nthreads use_syn TR stc iterative_N4 gsr name =
     (let (bold_tlen, mem) = create_mem_gb (fst bold_file) (snd bold_file);
          inputnode = PeNode (Node (IdentityInterface
            [''bold_file'', ''reversed_bold_file'', ''anat_preproc'', ''anat_mask'',
             ''anat_labels'', ''WM_mask'', ''CSF_mask'']) ''inputnode'');
          outputnode = PeNode (Node (IdentityInterface
            [''bold_file'', ''bold_ref'', ''skip_vols'', ''hmc_xforms'',
             ''output_warped_bold'', ''itk_bold_to_anat'', ''itk_anat_to_bold'',
             ''resampled_bold'', ''resampled_ref_bold'', ''hmc_movpar_file'',
             ''cleaned_bold'', ''GSR_cleaned_bold'', ''EPI_labels'', ''confounds_csv''])
            ''outputnode'');
          bold_reference_wf = Bold_reference_wf;
          bias_cor_wf = Bias_correction_wf iterative_N4;
          boldbuffer = PeNode (Node (IdentityInterface [''bold_file'']) ''boldbuffer'');
          bold_hmc_wf = Bold_hmc_wf ''bold_hmc_wf'' (filesize mem);
          bold_reg_wf = Bold_reg_wf use_syn;
          bold_bold_trans_wf =
            Bold_preproc_trans_wf (resampled mem) omp_nthreads True ''bold_bold_trans_wf'';
          bold_confs_wf = Bold_confs_wf (init_bold_confs_wf gsr ''bold_confs_wf'');
          workflow = connect (Workflow name) [
            (inputnode, bold_reference_wf, [(''bold_file'', ''inputnode.bold_file'')]),
            (bold_reference_wf, bias_cor_wf, [
              (''outputnode.ref_image'', ''inputnode.ref_EPI'')]),
            (inputnode, bias_cor_wf, [
              (''anat_preproc'', ''inputnode.anat''),
              (''anat_mask'', ''inputnode.anat_mask'')]),
            (bold_reference_wf, bold_hmc_wf, [
              (''outputnode.ref_image'', ''inputnode.ref_image''),
              (''outputnode.bold_file'', ''inputnode.bold_file'')]),
            (bold_hmc_wf, outputnode, [
              (''outputnode.xforms'', ''hmc_xforms''),
              (''outputnode.movpar_file'', ''hmc_movpar_file'')]),
            (bold_reference_wf, outputnode, [
              (''outputnode.ref_image'', ''bold_ref'')]),
            (inputnode, outputnode, [(''bold_file'', ''bold_file'')]),
            (inputnode, bold_reg_wf, [
              (''anat_preproc'', ''inputnode.anat_preproc''),
              (''anat_mask'', ''inputnode.anat_mask'')]),
            (bold_reg_wf, outputnode, [
              (''outputnode.itk_bold_to_anat'', ''itk_bold_to_anat''),
              (''outputnode.itk_anat_to_bold'', ''itk_anat_to_bold''),
              (''outputnode.output_warped_bold'', ''output_warped_bold'')]),
            (boldbuffer, bold_bold_trans_wf, [(''bold_file'', ''inputnode.bold_file'')]),
            (inputnode, bold_bold_trans_wf, [(''bold_file'', ''inputnode.name_source'')]),
            (bold_hmc_wf, bold_bold_trans_wf, [
              (''outputnode.xforms'', ''inputnode.hmc_xforms'')]),
            (bold_bold_trans_wf, outputnode, [
              (''outputnode.bold_ref'', ''resampled_ref_bold''),
              (''outputnode.bold'', ''resampled_bold'')]),
            (inputnode, bold_confs_wf, [
              (''anat_mask'', ''inputnode.t1_mask''),
              (''WM_mask'', ''inputnode.WM_mask''),
              (''CSF_mask'', ''inputnode.CSF_mask''),
              (''anat_labels'', ''inputnode.t1_labels'')]),
            (bold_bold_trans_wf, bold_confs_wf, [
              (''outputnode.bold'', ''inputnode.bold''),
              (''outputnode.bold_ref'', ''inputnode.ref_bold'')]),
            (bold_hmc_wf, bold_confs_wf, [
              (''outputnode.movpar_file'', ''inputnode.movpar_file'')]),
            (bold_confs_wf, outputnode, [
              (''outputnode.cleaned_bold'', ''cleaned_bold''),
              (''outputnode.GSR_cleaned_bold'', ''GSR_cleaned_bold''),
              (''outputnode.EPI_labels'', ''EPI_labels''),
              (''outputnode.confounds_csv'', ''confounds_csv'')])];
          workflow =
            (if stc then
               (let bold_stc_wf = Bold_stc_wf TR
                in connect workflow [
                  (bold_reference_wf, bold_stc_wf, [
                    (''outputnode.skip_vols'', ''inputnode.skip_vols''),
                    (''outputnode.bold_file'', ''inputnode.bold_file'')]),
                  (bold_stc_wf, boldbuffer, [(''outputnode.stc_file'', ''bold_file'')])])
             else
               connect workflow [
                 (bold_reference_wf, boldbuffer, [
                   (''outputnode.bold_file'', ''bold_file'')])]);
          workflow = connect workflow [
            (bias_cor_wf, bold_reg_wf, [
              (''outputnode.corrected_EPI'', ''inputnode.ref_bold_brain'')])];
          workflow = connect workflow [
            (bold_reg_wf, bold_bold_trans_wf, [
              (''outputnode.itk_bold_to_anat'', ''inputnode.fieldwarp'')])]
      in workflow)"

text \<open>
  The confound workflows nested in a main workflow, and the memory annotations of a stage
  erased (what is left is the shape of the graph).
\<close>

fun confs_of :: "stage \<Rightarrow> node workflow list" where
  "confs_of (Bold_confs_wf g) = [g]"
| "confs_of s = []"

definition nested_confs :: "stage workflow \<Rightarrow> node workflow list" where
  "nested_confs g = concat (map confs_of (wf_nodes g))"

fun erase_mem :: "stage \<Rightarrow> stage" where
  "erase_mem (Bold_hmc_wf name m) = Bold_hmc_wf name 0"
| "erase_mem (Bold_preproc_trans_wf m n fw name) = Bold_preproc_trans_wf 0 n fw name"
| "erase_mem s = s"

definition shape :: "stage workflow \<Rightarrow> (stage \<times> string \<times> stage \<times> string) list" where
  "shape g =
     map (\<lambda>(src, out_port, dst, in_port). (erase_mem src, out_port, erase_mem dst, in_port))
         (wf_edges g)"

subsection \<open>Sample inputs\<close>

text \<open>
  A series of two volumes with three voxels each, a white-matter mask on the first voxel,
  a CSF mask on the second, a brain mask on all three, and a motion table with its header
  line and one line per volume (two leading fields, then six parameters).
\<close>

definition sample_inputs :: "bool \<Rightarrow> img inputs" where
  "sample_inputs gsr =
     \<lparr> bold = Series [[Num 1, Num 2, Num 6], [Num 4, Num 5, Num 9]],
       movpar_file = [[''h0'', ''h1'', ''p0'', ''p1'', ''p2'', ''p3'', ''p4'', ''p5''],
                      [''0'', ''0'', ''10'', ''11'', ''12'', ''13'', ''14'', ''15''],
                      [''0'', ''0'', ''20'', ''21'', ''22'', ''23'', ''24'', ''25'']],
       brain_mask = Mask [True, True, True],
       WM_mask = Mask [True, False, False],
       CSF_mask = Mask [False, True, False],
       apply_GSR = gsr,
       motioncorr_24params = False \<rparr>"

definition sample_confounds :: matrix where
  "sample_confounds =
     [[Num 1, Num 2, Num 3, Num 10, Num 11, Num 12, Num 13, Num 14, Num 15],
      [Num 4, Num 5, Num 6, Num 20, Num 21, Num 22, Num 23, Num 24, Num 25]]"

section \<open>Properties of the resource estimator\<close>

text \<open>
  C2, as stated, fails: the high-memory estimate is not base times \<open>max(L/100, 1.0)\<close>,
  plus 4. For a file of \<open>2^31\<close> bytes (2 GB) and 100 volumes the code yields
  \<open>2 * (1 + 4) = 10\<close>, the stated formula \<open>2 * 1 + 4 = 6\<close>.
\<close>

theorem create_mem_gb_largemem_counterexample:
  "filesize (snd (create_mem_gb (2 ^ 31) 100)) = 2
   \<and> largemem (snd (create_mem_gb (2 ^ 31) 100)) = 10
   \<and> largemem (snd (create_mem_gb (2 ^ 31) 100))
       \<noteq> filesize (snd (create_mem_gb (2 ^ 31) 100)) * max (rat_of_nat 100 / 100) 1 + 4"
  by (simp add: create_mem_gb_def)

text \<open>
  C2, amended: for a series of \<open>S\<close> bytes and temporal length \<open>L\<close> the estimator returns
  \<open>L\<close> and the estimates base = \<open>S / 1024^3\<close>, resampled = 4 times the base, and
  high-memory = base times (\<open>max(L/100, 1.0)\<close> plus 4), that is base times
  \<open>max(L/100, 1.0)\<close> plus 4 times the base.
\<close>

theorem create_mem_gb_policy:
  "fst (create_mem_gb S L) = L
   \<and> filesize (snd (create_mem_gb S L)) = rat_of_nat S / 1024 ^ 3
   \<and> resampled (snd (create_mem_gb S L)) = 4 * filesize (snd (create_mem_gb S L))
   \<and> largemem (snd (create_mem_gb S L))
       = filesize (snd (create_mem_gb S L)) * max (rat_of_nat L / 100) 1
         + 4 * filesize (snd (create_mem_gb S L))"
  by (simp add: create_mem_gb_def Let_def algebra_simps)

section \<open>Properties of the confound regression engine\<close>

subsection \<open>The regressed columns\<close>

lemma np_r_0_3_4_9: "np_r [(0, 3), (4, 9)] = [0, 1, 2, 4, 5, 6, 7, 8]"
  by (simp add: np_r_def upt_rec)

lemma regressed_confounds_columns:
  "regressed_confounds gsr conf =
     (if gsr then conf
      else map (\<lambda>row. [row ! 0, row ! 1, row ! 2, row ! 4, row ! 5, row ! 6, row ! 7, row ! 8])
               conf)"
  by (simp add: regressed_confounds_def take_columns_def np_r_0_3_4_9)

lemma build_confounds_sample:
  "build_confounds rec_backend (sample_inputs gsr) = Inr sample_confounds"
  by (cases gsr) (code_simp, code_simp)

text \<open>
  C1: with the flag disabled the engine is to leave out the global-signal column (index 2)
  and regress out columns 0, 1, 3, 4, 5, 6, 7, 8. On the sample series with the flag
  disabled the matrix handed to \<open>clean_img\<close> holds columns 0, 1, 2, 4, 5, 6, 7, 8 instead:
  the global signal (3 and 6) is regressed out and the first motion parameter (10 and 20)
  is left out.
\<close>

theorem run_interface_without_GSR_columns:
  "cleaned_file (snd (run_interface rec_backend (sample_inputs False) no_files))
     = Some (Smoothed
         (Cleaned (Series [[Num 1, Num 2, Num 6], [Num 4, Num 5, Num 9]])
            \<lparr> detrend = True, standardize = True, high_pass = 1 / 100,
              confounds = [[Num 1, Num 2, Num 3, Num 11, Num 12, Num 13, Num 14, Num 15],
                           [Num 4, Num 5, Num 6, Num 21, Num 22, Num 23, Num 24, Num 25]],
              t_r = 12 / 10 \<rparr>)
         (3 / 10))"
  by code_simp

subsection \<open>The motion-parameter parser\<close>

lemma set_fields_upt:
  "2 \<le> a \<Longrightarrow> set_fields pf row mrow [a..<b] = Inr r \<Longrightarrow>
     length r = length mrow
     \<and> (a < b \<longrightarrow> b - 2 \<le> length mrow)
     \<and> (\<forall>i. a \<le> i \<and> i < b \<longrightarrow> pf (row ! i) \<noteq> None)
     \<and> (\<forall>k<length mrow. r ! k = (if a \<le> k + 2 \<and> k + 2 < b then the (pf (row ! (k + 2))) else mrow ! k))"
proof (induction "b - a" arbitrary: a mrow)
  case 0
  then show ?case by auto
next
  case (Suc n)
  then have ab: "a < b" by simp
  then have upt: "[a..<b] = a # [Suc a..<b]" by (simp add: upt_rec)
  from Suc.prems(2) obtain v where v: "pf (row ! a) = Some v"
    and inb: "a - 2 < length mrow"
    and rest: "set_fields pf row (mrow[a - 2 := v]) [Suc a..<b] = Inr r"
    unfolding upt by (auto split: option.splits if_splits)
  have n: "n = b - Suc a" using Suc.hyps(2) by simp
  have a2: "2 \<le> Suc a" using Suc.prems(1) by simp
  note IH = Suc.hyps(1)[OF n a2 rest]
  have len: "length r = length mrow" using IH by simp
  have bound: "b - 2 \<le> length mrow"
  proof (cases "Suc a < b")
    case True
    then show ?thesis using IH by simp
  next
    case False
    then have "b = Suc a" using ab by simp
    then show ?thesis using inb Suc.prems(1) by simp
  qed
  have parse: "\<forall>i. a \<le> i \<and> i < b \<longrightarrow> pf (row ! i) \<noteq> None"
  proof (intro allI impI)
    fix i assume i: "a \<le> i \<and> i < b"
    show "pf (row ! i) \<noteq> None"
    proof (cases "i = a")
      case True
      then show ?thesis using v by simp
    next
      case False
      then have "Suc a \<le> i \<and> i < b" using i by simp
      then show ?thesis using IH by blast
    qed
  qed
  have vals: "\<forall>k<length mrow. r ! k = (if a \<le> k + 2 \<and> k + 2 < b then the (pf (row ! (k + 2))) else mrow ! k)"
  proof (intro allI impI)
    fix k assume k: "k < length mrow"
    from IH k have rk: "r ! k = (if Suc a \<le> k + 2 \<and> k + 2 < b then the (pf (row ! (k + 2))) else mrow[a - 2 := v] ! k)"
      by simp
    show "r ! k = (if a \<le> k + 2 \<and> k + 2 < b then the (pf (row ! (k + 2))) else mrow ! k)"
    proof (cases "k + 2 = a")
      case True
      then have "k = a - 2" by simp
      then show ?thesis using rk v ab True k by simp
    next
      case False
      then have "k \<noteq> a - 2" using Suc.prems(1) by simp
      then show ?thesis using rk False by auto
    qed
  qed
  show ?case using len bound parse vals ab by simp
qed

lemma set_fields_total:
  "2 \<le> a \<Longrightarrow> \<forall>i. a \<le> i \<and> i < b \<longrightarrow> pf (row ! i) \<noteq> None \<Longrightarrow> b - 2 \<le> length mrow \<Longrightarrow>
     \<exists>r. set_fields pf row mrow [a..<b] = Inr r"
proof (induction "b - a" arbitrary: a mrow)
  case 0
  then show ?case by simp
next
  case (Suc n)
  then have ab: "a < b" by simp
  then have upt: "[a..<b] = a # [Suc a..<b]" by (simp add: upt_rec)
  from Suc.prems(2) ab obtain v where v: "pf (row ! a) = Some v" by auto
  have inb: "a - 2 < length mrow" using ab Suc.prems by simp
  have "\<exists>r. set_fields pf row (mrow[a - 2 := v]) [Suc a..<b] = Inr r"
    using Suc.hyps(1)[of "Suc a" "mrow[a - 2 := v]"] Suc.hyps(2) Suc.prems by simp
  then show ?case unfolding upt using v inb by simp
qed

lemma set_fields_IndexError:
  "2 \<le> a \<Longrightarrow> \<forall>i. a \<le> i \<and> i < b \<longrightarrow> pf (row ! i) \<noteq> None \<Longrightarrow> length mrow < b - 2 \<Longrightarrow>
     a - 2 \<le> length mrow \<Longrightarrow> set_fields pf row mrow [a..<b] = Inl IndexError"
proof (induction "b - a" arbitrary: a mrow)
  case 0
  then show ?case by simp
next
  case (Suc n)
  then have ab: "a < b" by simp
  then have upt: "[a..<b] = a # [Suc a..<b]" by (simp add: upt_rec)
  from Suc.prems(2) ab obtain v where v: "pf (row ! a) = Some v" by auto
  show ?case
  proof (cases "a - 2 < length mrow")
    case True
    have "set_fields pf row (mrow[a - 2 := v]) [Suc a..<b] = Inl IndexError"
      using Suc.hyps(1)[of "Suc a" "mrow[a - 2 := v]"] Suc.hyps(2) Suc.prems True by simp
    then show ?thesis unfolding upt using v True by simp
  next
    case False
    then show ?thesis unfolding upt using v by simp
  qed
qed


lemma rows6_nth: "rows6 m \<Longrightarrow> k < length m \<Longrightarrow> length (m ! k) = 6"
  by (simp add: rows6_def list_all_length)

lemma rows6_update: "rows6 m \<Longrightarrow> length r = 6 \<Longrightarrow> rows6 (m[j := r])"
  unfolding rows6_def list_all_iff using set_update_subset_insert[of m j r] by fastforce

lemma rows6_zeros: "rows6 (np_zeros n 6)"
  by (simp add: rows6_def np_zeros_def list_all_length)

lemma fill_rows_success:
  "fill_rows pf movpar j rows = Inr res \<Longrightarrow> j + length rows \<le> length movpar \<Longrightarrow>
     length res = length movpar
     \<and> (\<forall>k<length movpar. j \<le> k \<and> k < j + length rows \<longrightarrow>
           set_fields pf (rows ! (k - j)) (movpar ! k) [2..<length (rows ! (k - j))] = Inr (res ! k))
     \<and> (\<forall>k<length movpar. \<not> (j \<le> k \<and> k < j + length rows) \<longrightarrow> res ! k = movpar ! k)"
proof (induction rows arbitrary: movpar j)
  case Nil
  then show ?case by simp
next
  case (Cons row rest)
  from Cons.prems(1) obtain r where r: "set_fields pf row (movpar ! j) [2..<length row] = Inr r"
    and rest: "fill_rows pf (movpar[j := r]) (j + 1) rest = Inr res"
    by (auto split: sum.splits)
  have le: "j + 1 + length rest \<le> length (movpar[j := r])" using Cons.prems(2) by simp
  note IH = Cons.IH[OF rest le]
  have jlt: "j < length movpar" using Cons.prems(2) by simp
  have len: "length res = length movpar" using IH by simp
  have resj: "res ! j = r" using IH jlt by simp
  have inside: "\<forall>k<length movpar. j \<le> k \<and> k < j + length (row # rest) \<longrightarrow>
           set_fields pf ((row # rest) ! (k - j)) (movpar ! k) [2..<length ((row # rest) ! (k - j))] = Inr (res ! k)"
  proof (intro allI impI)
    fix k assume k: "k < length movpar" and rng: "j \<le> k \<and> k < j + length (row # rest)"
    show "set_fields pf ((row # rest) ! (k - j)) (movpar ! k) [2..<length ((row # rest) ! (k - j))] = Inr (res ! k)"
    proof (cases "k = j")
      case True
      then show ?thesis using r resj by simp
    next
      case False
      then have k1: "j + 1 \<le> k \<and> k < j + 1 + length rest" using rng by simp
      then have "set_fields pf (rest ! (k - (j + 1))) (movpar[j := r] ! k) [2..<length (rest ! (k - (j + 1)))] = Inr (res ! k)"
        using IH k by simp
      moreover have "(row # rest) ! (k - j) = rest ! (k - (j + 1))" using k1 by (simp add: nth_Cons')
      moreover have "movpar[j := r] ! k = movpar ! k" using False by simp
      ultimately show ?thesis by simp
    qed
  qed
  have outside: "\<forall>k<length movpar. \<not> (j \<le> k \<and> k < j + length (row # rest)) \<longrightarrow> res ! k = movpar ! k"
  proof (intro allI impI)
    fix k assume k: "k < length movpar" and rng: "\<not> (j \<le> k \<and> k < j + length (row # rest))"
    then have "\<not> (j + 1 \<le> k \<and> k < j + 1 + length rest)" and "k \<noteq> j" by auto
    then show "res ! k = movpar ! k" using IH k by simp
  qed
  show ?case using len inside outside by blast
qed

lemma fill_rows_total:
  "rows6 movpar \<Longrightarrow> j + length rows \<le> length movpar \<Longrightarrow>
   \<forall>row\<in>set rows. length row \<le> 8 \<and> (\<forall>i. 2 \<le> i \<and> i < length row \<longrightarrow> pf (row ! i) \<noteq> None) \<Longrightarrow>
     \<exists>res. fill_rows pf movpar j rows = Inr res"
proof (induction rows arbitrary: movpar j)
  case Nil
  then show ?case by simp
next
  case (Cons row rest)
  have jlt: "j < length movpar" using Cons.prems(2) by simp
  have l6: "length (movpar ! j) = 6" using rows6_nth[OF Cons.prems(1) jlt] .
  have "length row \<le> 8" using Cons.prems(3) by simp
  then have b8: "length row - 2 \<le> length (movpar ! j)" using l6 by simp
  have ps: "\<forall>i. 2 \<le> i \<and> i < length row \<longrightarrow> pf (row ! i) \<noteq> None" using Cons.prems(3) by simp
  have "\<exists>r. set_fields pf row (movpar ! j) [2..<length row] = Inr r"
    using set_fields_total[OF _ ps b8] by simp
  then obtain r where r: "set_fields pf row (movpar ! j) [2..<length row] = Inr r" ..
  have lr: "length r = 6" using set_fields_upt[OF _ r] l6 by simp
  have "\<exists>res. fill_rows pf (movpar[j := r]) (j + 1) rest = Inr res"
    using Cons.IH[of "movpar[j := r]" "j + 1"] rows6_update[OF Cons.prems(1) lr] Cons.prems(2,3) by simp
  then show ?case using r by simp
qed

lemma fill_rows_IndexError:
  "rows6 movpar \<Longrightarrow> j + length rows \<le> length movpar \<Longrightarrow>
   \<forall>row\<in>set rows. \<forall>i. 2 \<le> i \<and> i < length row \<longrightarrow> pf (row ! i) \<noteq> None \<Longrightarrow>
   \<exists>row\<in>set rows. 8 < length row \<Longrightarrow>
     fill_rows pf movpar j rows = Inl IndexError"
proof (induction rows arbitrary: movpar j)
  case Nil
  then show ?case by simp
next
  case (Cons row rest)
  have jlt: "j < length movpar" using Cons.prems(2) by simp
  have l6: "length (movpar ! j) = 6" using rows6_nth[OF Cons.prems(1) jlt] .
  show ?case
  proof (cases "8 < length row")
    case True
    have ps: "\<forall>i. 2 \<le> i \<and> i < length row \<longrightarrow> pf (row ! i) \<noteq> None" using Cons.prems(3) by simp
    have "set_fields pf row (movpar ! j) [2..<length row] = Inl IndexError"
      using set_fields_IndexError[OF _ ps, of "movpar ! j"] l6 True by simp
    then show ?thesis by simp
  next
    case False
    then have b8: "length row - 2 \<le> length (movpar ! j)" using l6 by simp
    have ps: "\<forall>i. 2 \<le> i \<and> i < length row \<longrightarrow> pf (row ! i) \<noteq> None" using Cons.prems(3) by simp
    have "\<exists>r. set_fields pf row (movpar ! j) [2..<length row] = Inr r"
      using set_fields_total[OF _ ps b8] by simp
    then obtain r where r: "set_fields pf row (movpar ! j) [2..<length row] = Inr r" ..
    have lr: "length r = 6" using set_fields_upt[OF _ r] l6 by simp
    have ex: "\<exists>row\<in>set rest. 8 < length row" using Cons.prems(4) False by simp
    have "fill_rows pf (movpar[j := r]) (j + 1) rest = Inl IndexError"
      using Cons.IH[of "movpar[j := r]" "j + 1"] rows6_update[OF Cons.prems(1) lr] Cons.prems(2,3) ex by simp
    then show ?thesis using r by simp
  qed
qed


lemma ball_drop_conv:
  "(\<forall>f\<in>set (drop n xs). P f) \<longleftrightarrow> (\<forall>i. n \<le> i \<and> i < length xs \<longrightarrow> P (xs ! i))"
proof
  assume L: "\<forall>f\<in>set (drop n xs). P f"
  show "\<forall>i. n \<le> i \<and> i < length xs \<longrightarrow> P (xs ! i)"
  proof (intro allI impI)
    fix i assume i: "n \<le> i \<and> i < length xs"
    then have "drop n xs ! (i - n) = xs ! i" and "i - n < length (drop n xs)" by auto
    then have "xs ! i \<in> set (drop n xs)" by (metis nth_mem)
    then show "P (xs ! i)" using L by blast
  qed
next
  assume R: "\<forall>i. n \<le> i \<and> i < length xs \<longrightarrow> P (xs ! i)"
  show "\<forall>f\<in>set (drop n xs). P f"
  proof
    fix f assume "f \<in> set (drop n xs)"
    then obtain k where k: "k < length (drop n xs)" and f: "drop n xs ! k = f"
      by (auto simp: in_set_conv_nth)
    then have "f = xs ! (n + k)" and "n + k < length xs" by auto
    then show "P f" using R by simp
  qed
qed

text \<open>
  C9: \<open>extract_rigid_movpar\<close> drops the header line and the first two fields of every other
  line. When it returns, the matrix has one row per data line and 6 columns, every data
  line has at most 8 fields, and entry \<open>k\<close> of a row is the parsed field \<open>k + 2\<close> of its
  line, or zero where the line has no such field. It returns whenever the file has a
  line, every data line has at most 8 fields and every field from the third on is a
  number; when a data line has more than 8 fields (all such fields being numbers) the
  write at column 6 raises \<open>IndexError\<close>.
\<close>

theorem extract_rigid_movpar_contract:
  "(extract_rigid_movpar pf temp = Inr movpar \<longrightarrow>
      temp \<noteq> [] \<and> length movpar = length temp - 1
      \<and> (\<forall>j<length movpar.
            length (movpar ! j) = 6 \<and> length (temp ! Suc j) \<le> 8
            \<and> (\<forall>k<6. movpar ! j ! k =
                  (if k + 2 < length (temp ! Suc j) then the (pf (temp ! Suc j ! (k + 2)))
                   else Num 0))))
   \<and> (temp \<noteq> []
        \<and> (\<forall>row\<in>set (tl temp). length row \<le> 8 \<and> (\<forall>f\<in>set (drop 2 row). pf f \<noteq> None))
      \<longrightarrow> (\<exists>m. extract_rigid_movpar pf temp = Inr m))
   \<and> (temp \<noteq> []
        \<and> (\<exists>row\<in>set (tl temp). 8 < length row)
        \<and> (\<forall>row\<in>set (tl temp). \<forall>f\<in>set (drop 2 row). pf f \<noteq> None)
      \<longrightarrow> extract_rigid_movpar pf temp = Inl IndexError)"
proof (intro conjI impI)
  assume ok: "extract_rigid_movpar pf temp = Inr movpar"
  then show ne: "temp \<noteq> []" by (auto simp: extract_rigid_movpar_def)
  from ok ne have fr: "fill_rows pf (np_zeros (length temp - 1) 6) 0 (tl temp) = Inr movpar"
    by (simp add: extract_rigid_movpar_def)
  have lz: "length (np_zeros (length temp - 1) 6) = length temp - 1" by (simp add: np_zeros_def)
  have le: "0 + length (tl temp) \<le> length (np_zeros (length temp - 1) 6)" using lz by simp
  note S = fill_rows_success[OF fr le]
  show len: "length movpar = length temp - 1" using S lz by simp
  show "\<forall>j<length movpar.
            length (movpar ! j) = 6 \<and> length (temp ! Suc j) \<le> 8
            \<and> (\<forall>k<6. movpar ! j ! k =
                  (if k + 2 < length (temp ! Suc j) then the (pf (temp ! Suc j ! (k + 2)))
                   else Num 0))"
  proof (intro allI impI)
    fix j assume j: "j < length movpar"
    then have j': "j < length temp - 1" using len by simp
    have row: "tl temp ! j = temp ! Suc j" using ne j' by (simp add: nth_tl)
    have z: "np_zeros (length temp - 1) 6 ! j = replicate 6 (Num 0)" using j' by (simp add: np_zeros_def)
    have "j < length (np_zeros (length temp - 1) 6) \<and> 0 \<le> j \<and> j < 0 + length (tl temp)"
      using j' lz by simp
    then have "set_fields pf (tl temp ! (j - 0)) (np_zeros (length temp - 1) 6 ! j)
                 [2..<length (tl temp ! (j - 0))] = Inr (movpar ! j)"
      using S by blast
    then have sf: "set_fields pf (temp ! Suc j) (replicate 6 (Num 0)) [2..<length (temp ! Suc j)] = Inr (movpar ! j)"
      using row z by simp
    note U = set_fields_upt[OF _ sf]
    have l6: "length (movpar ! j) = 6" using U by simp
    have l8: "length (temp ! Suc j) \<le> 8" using U by (cases "2 < length (temp ! Suc j)") auto
    have vals: "\<forall>k<6. movpar ! j ! k =
                  (if k + 2 < length (temp ! Suc j) then the (pf (temp ! Suc j ! (k + 2)))
                   else Num 0)" using U by simp
    show "length (movpar ! j) = 6 \<and> length (temp ! Suc j) \<le> 8
            \<and> (\<forall>k<6. movpar ! j ! k =
                  (if k + 2 < length (temp ! Suc j) then the (pf (temp ! Suc j ! (k + 2)))
                   else Num 0))" using l6 l8 vals by blast
  qed
next
  assume a: "temp \<noteq> []
        \<and> (\<forall>row\<in>set (tl temp). length row \<le> 8 \<and> (\<forall>f\<in>set (drop 2 row). pf f \<noteq> None))"
  then have rows: "\<forall>row\<in>set (tl temp). length row \<le> 8 \<and> (\<forall>i. 2 \<le> i \<and> i < length row \<longrightarrow> pf (row ! i) \<noteq> None)"
    by (simp add: ball_drop_conv)
  have le: "0 + length (tl temp) \<le> length (np_zeros (length temp - 1) 6)" by (simp add: np_zeros_def)
  show "\<exists>m. extract_rigid_movpar pf temp = Inr m"
    using fill_rows_total[OF rows6_zeros le rows] a by (simp add: extract_rigid_movpar_def)
next
  assume a: "temp \<noteq> []
        \<and> (\<exists>row\<in>set (tl temp). 8 < length row)
        \<and> (\<forall>row\<in>set (tl temp). \<forall>f\<in>set (drop 2 row). pf f \<noteq> None)"
  then have rows: "\<forall>row\<in>set (tl temp). \<forall>i. 2 \<le> i \<and> i < length row \<longrightarrow> pf (row ! i) \<noteq> None"
    by (simp add: ball_drop_conv)
  have ex: "\<exists>row\<in>set (tl temp). 8 < length row" using a by simp
  have le: "0 + length (tl temp) \<le> length (np_zeros (length temp - 1) 6)" by (simp add: np_zeros_def)
  show "extract_rigid_movpar pf temp = Inl IndexError"
    using fill_rows_IndexError[OF rows6_zeros le rows ex] a by (simp add: extract_rigid_movpar_def)
qed

theorem extract_rigid_movpar_contract_witness:
  "extract_rigid_movpar rec_float [[''h0'', ''h1'', ''p0''], [''0'', ''0'', ''7'', ''8'']]
     = Inr [[Num 7, Num 8, Num 0, Num 0, Num 0, Num 0]]
   \<and> (\<exists>m. extract_rigid_movpar rec_float
             [[''h0'', ''h1'', ''p0''], [''0'', ''0'', ''7'', ''8'']] = Inr m)
   \<and> extract_rigid_movpar rec_float
       [[''h0''], [''0'', ''0'', ''1'', ''2'', ''3'', ''4'', ''5'', ''6'', ''7'']]
     = Inl IndexError"
proof -
  let ?short = "[[''h0'', ''h1'', ''p0''], [''0'', ''0'', ''7'', ''8'']]"
  let ?long = "[[''h0''], [''0'', ''0'', ''1'', ''2'', ''3'', ''4'', ''5'', ''6'', ''7'']]"
  have r: "extract_rigid_movpar rec_float ?short = Inr [[Num 7, Num 8, Num 0, Num 0, Num 0, Num 0]]"
    by code_simp
  have h2: "?short \<noteq> []
        \<and> (\<forall>row\<in>set (tl ?short). length row \<le> 8 \<and> (\<forall>f\<in>set (drop 2 row). rec_float f \<noteq> None))"
    by code_simp
  have h3: "?long \<noteq> []
        \<and> (\<exists>row\<in>set (tl ?long). 8 < length row)
        \<and> (\<forall>row\<in>set (tl ?long). \<forall>f\<in>set (drop 2 row). rec_float f \<noteq> None)"
    by code_simp
  from extract_rigid_movpar_contract[of rec_float ?short "[[Num 7, Num 8, Num 0, Num 0, Num 0, Num 0]]"] h2
  have p2: "\<exists>m. extract_rigid_movpar rec_float ?short = Inr m" by blast
  from extract_rigid_movpar_contract[of rec_float ?long "[]"] h3
  have p3: "extract_rigid_movpar rec_float ?long = Inl IndexError" by blast
  show ?thesis using r p2 p3 by blast
qed

subsection \<open>Assembling the confound matrix and running the interface\<close>

lemma map2_nth_conv:
  "length ys = length xs \<Longrightarrow> map2 f xs ys = map (\<lambda>j. f (xs ! j) (ys ! j)) [0..<length xs]"
  by (rule nth_equalityI) simp_all

lemma assign_column_same:
  "length v = length a \<Longrightarrow> assign_column a c v = Inr (map (\<lambda>j. (a ! j)[c := v ! j]) [0..<length a])"
  by (simp add: assign_column_def map2_nth_conv)

lemma assign_block_same:
  "length b = length a \<Longrightarrow>
     assign_block a lo b = Inr (map (\<lambda>j. write_block lo (a ! j) (b ! j)) [0..<length a])"
  by (simp add: assign_block_def map2_nth_conv)


lemma zeros9_filled:
  "(replicate 9 (Num 0))[0 := w, 1 := c, 2 := g]
     = [w, c, g, Num 0, Num 0, Num 0, Num 0, Num 0, Num 0]"
  by (simp add: eval_nat_numeral)

lemma build_confounds_traces:
  assumes wm: "apply_mask bk (bold inp) (WM_mask inp) = Inr wm"
    and csf: "apply_mask bk (bold inp) (CSF_mask inp) = Inr csf"
    and br: "apply_mask bk (bold inp) (brain_mask inp) = Inr br"
    and mv: "extract_rigid_movpar (pyfloat bk) (movpar_file inp) = Inr movpar"
    and lcsf: "length csf = length wm"
    and lbr: "length br = length wm"
  shows "build_confounds bk inp =
           assign_block
             (map (\<lambda>j. [mean_flt (wm ! j), mean_flt (csf ! j), mean_flt (br ! j),
                         Num 0, Num 0, Num 0, Num 0, Num 0, Num 0]) [0..<length wm])
             3 movpar"
proof -
  let ?n = "length wm"
  have t1: "extract_mask_trace bk (bold inp) (WM_mask inp) = Inr (map mean_flt wm)"
    by (simp add: extract_mask_trace_def wm np_mean_axis1_def)
  have t2: "extract_mask_trace bk (bold inp) (CSF_mask inp) = Inr (map mean_flt csf)"
    by (simp add: extract_mask_trace_def csf np_mean_axis1_def)
  have t3: "extract_mask_trace bk (bold inp) (brain_mask inp) = Inr (map mean_flt br)"
    by (simp add: extract_mask_trace_def br np_mean_axis1_def)
  let ?c0 = "map (\<lambda>j. (replicate 9 (Num 0))[0 := mean_flt (wm ! j)]) [0..<?n]"
  let ?c1 = "map (\<lambda>j. (replicate 9 (Num 0))[0 := mean_flt (wm ! j), 1 := mean_flt (csf ! j)]) [0..<?n]"
  let ?c2 = "map (\<lambda>j. (replicate 9 (Num 0))[0 := mean_flt (wm ! j), 1 := mean_flt (csf ! j),
                           2 := mean_flt (br ! j)]) [0..<?n]"
  have a0: "assign_column (np_zeros (length (map mean_flt wm)) num_confounds) 0 (map mean_flt wm) = Inr ?c0"
    by (simp add: assign_column_same np_zeros_def num_confounds_def)
  have a1: "assign_column ?c0 1 (map mean_flt csf) = Inr ?c1"
    using lcsf by (simp add: assign_column_same)
  have a2: "assign_column ?c1 2 (map mean_flt br) = Inr ?c2"
    using lbr by (simp add: assign_column_same)
  have c2: "?c2 = map (\<lambda>j. [mean_flt (wm ! j), mean_flt (csf ! j), mean_flt (br ! j),
                         Num 0, Num 0, Num 0, Num 0, Num 0, Num 0]) [0..<?n]"
    by (simp only: zeros9_filled)
  show ?thesis
    unfolding build_confounds_def t1 t2 t3 sum.case a0 a1 a2 mv c2 ..
qed


lemma fill_rows_rows6:
  "rows6 movpar \<Longrightarrow> j + length rows \<le> length movpar \<Longrightarrow> fill_rows pf movpar j rows = Inr res \<Longrightarrow>
     rows6 res \<and> length res = length movpar"
proof (induction rows arbitrary: movpar j)
  case Nil
  then show ?case by simp
next
  case (Cons row rest)
  from Cons.prems(3) obtain r where r: "set_fields pf row (movpar ! j) [2..<length row] = Inr r"
    and rest: "fill_rows pf (movpar[j := r]) (j + 1) rest = Inr res"
    by (auto split: sum.splits)
  have jlt: "j < length movpar" using Cons.prems(2) by simp
  have lr: "length r = 6" using set_fields_upt[OF _ r] rows6_nth[OF Cons.prems(1) jlt] by simp
  show ?case
    using Cons.IH[of "movpar[j := r]" "j + 1", OF rows6_update[OF Cons.prems(1) lr] _ rest] Cons.prems(2)
    by simp
qed

lemma extract_rigid_movpar_rows6:
  "extract_rigid_movpar pf temp = Inr movpar \<Longrightarrow> rows6 movpar \<and> length movpar = length temp - 1"
proof -
  assume ok: "extract_rigid_movpar pf temp = Inr movpar"
  then have ne: "temp \<noteq> []" by (auto simp: extract_rigid_movpar_def)
  with ok have fr: "fill_rows pf (np_zeros (length temp - 1) 6) 0 (tl temp) = Inr movpar"
    by (simp add: extract_rigid_movpar_def)
  have le: "0 + length (tl temp) \<le> length (np_zeros (length temp - 1) 6)" by (simp add: np_zeros_def)
  show ?thesis using fill_rows_rows6[OF rows6_zeros le fr] by (simp add: np_zeros_def)
qed

lemma write_block_motion:
  "length m = 6 \<Longrightarrow>
     write_block 3 [w, c, g, Num 0, Num 0, Num 0, Num 0, Num 0, Num 0] m = [w, c, g] @ m"
  by (simp add: write_block_def)

lemma build_confounds_ok:
  assumes wm: "apply_mask bk (bold inp) (WM_mask inp) = Inr wm"
    and csf: "apply_mask bk (bold inp) (CSF_mask inp) = Inr csf"
    and br: "apply_mask bk (bold inp) (brain_mask inp) = Inr br"
    and mv: "extract_rigid_movpar (pyfloat bk) (movpar_file inp) = Inr movpar"
    and lcsf: "length csf = length wm"
    and lbr: "length br = length wm"
    and lmv: "length movpar = length wm"
  shows "build_confounds bk inp =
           Inr (map (\<lambda>j. [mean_flt (wm ! j), mean_flt (csf ! j), mean_flt (br ! j)] @ movpar ! j)
                    [0..<length wm])"
proof -
  have r6: "rows6 movpar" using extract_rigid_movpar_rows6[OF mv] by simp
  have "\<forall>j<length wm. length (movpar ! j) = 6" using rows6_nth[OF r6] lmv by simp
  then show ?thesis
    unfolding build_confounds_traces[OF wm csf br mv lcsf lbr]
    using lmv by (simp add: assign_block_same write_block_motion)
qed






lemma build_confounds_flag:
  "build_confounds bk (inp\<lparr>apply_GSR := a, motioncorr_24params := m\<rparr>) = build_confounds bk inp"
  by (simp add: build_confounds_def cong: sum.case_cong)


lemma length_csv_columns: "length csv_columns = 9"
  by (simp add: csv_columns_def)

lemma run_interface_confounds_file:
  "confounds_file (snd (run_interface bk inp fs)) =
     (case build_confounds bk inp of
        Inl e \<Rightarrow> confounds_file fs
      | Inr conf \<Rightarrow>
          if list_all (\<lambda>row. length row = 9) conf
          then Some (to_csv \<lparr> df_columns = csv_columns, df_index = [0..<length conf],
                               df_data = conf \<rparr>)
          else confounds_file fs)"
  by (simp add: run_interface_def write_confound_csv_def clean_bold_def length_csv_columns Let_def
      split: sum.splits prod.splits)

lemma run_interface_success:
  assumes "run_interface bk inp fs = (Inr out, fs')"
  shows "\<exists>conf regressed cleaned.
           build_confounds bk inp = Inr conf
           \<and> clean_img bk (bold inp)
                \<lparr> detrend = True, standardize = True, high_pass = 1 / 100,
                  confounds = regressed_confounds (apply_GSR inp) conf, t_r = 12 / 10 \<rparr>
               = Inr regressed
           \<and> smooth_img bk regressed (3 / 10) = Inr cleaned
           \<and> cleaned_file fs' = Some cleaned
           \<and> confounds_file fs'
               = Some (to_csv \<lparr> df_columns = csv_columns, df_index = [0..<length conf],
                                 df_data = conf \<rparr>)
           \<and> out = \<lparr> cleaned_bold = ''cleaned.nii.gz'', confounds_csv = ''confounds.csv'' \<rparr>"
  using assms
  by (auto simp: run_interface_def write_confound_csv_def clean_bold_def Let_def
      split: sum.splits prod.splits if_splits)

subsection \<open>The persisted confound table\<close>

lemma to_csv_rows:
  "to_csv \<lparr> df_columns = cols, df_index = [0..<length conf], df_data = conf \<rparr>
     = (Text [] # map Text cols) # map (\<lambda>j. Index j # map Value (conf ! j)) [0..<length conf]"
  by (simp add: to_csv_def map2_nth_conv)

text \<open>
  C4: when the three masks give traces of the series' length and the motion table has one
  data line per volume, the assembled confound matrix has one row per volume and 9
  columns in the order white-matter mean, CSF mean, whole-brain mean, then the 6 motion
  parameters of the volume's line; and whatever the global-signal flag is, the file
  \<open>confounds.csv\<close> holds the whole matrix under the labels \<open>WM_signal\<close>, \<open>CSF_signal\<close>,
  \<open>global_signal\<close>, \<open>mov1\<close>, \<open>mov2\<close>, \<open>mov3\<close>, \<open>rot1\<close>, \<open>rot2\<close>, \<open>rot3\<close>
  (each line led by the data frame's index).
\<close>

theorem run_interface_confound_table:
  assumes wm: "apply_mask bk (bold inp) (WM_mask inp) = Inr wm"
    and csf: "apply_mask bk (bold inp) (CSF_mask inp) = Inr csf"
    and br: "apply_mask bk (bold inp) (brain_mask inp) = Inr br"
    and mv: "extract_rigid_movpar (pyfloat bk) (movpar_file inp) = Inr movpar"
    and lcsf: "length csf = length wm"
    and lbr: "length br = length wm"
    and lmv: "length movpar = length wm"
  shows "build_confounds bk (inp\<lparr>apply_GSR := gsr\<rparr>)
           = Inr (map (\<lambda>j. [mean_flt (wm ! j), mean_flt (csf ! j), mean_flt (br ! j)] @ movpar ! j)
                      [0..<length wm])
         \<and> (\<forall>j<length wm. length (movpar ! j) = 6)
         \<and> confounds_file (snd (run_interface bk (inp\<lparr>apply_GSR := gsr\<rparr>) fs))
             = Some ((Text [] # map Text [''WM_signal'', ''CSF_signal'', ''global_signal'',
                                           ''mov1'', ''mov2'', ''mov3'', ''rot1'', ''rot2'', ''rot3''])
                     # map (\<lambda>j. Index j # map Value
                                 ([mean_flt (wm ! j), mean_flt (csf ! j), mean_flt (br ! j)]
                                  @ movpar ! j))
                           [0..<length wm])"
proof -
  let ?inp = "inp\<lparr>apply_GSR := gsr\<rparr>"
  let ?conf = "map (\<lambda>j. [mean_flt (wm ! j), mean_flt (csf ! j), mean_flt (br ! j)] @ movpar ! j)
                      [0..<length wm]"
  have b: "build_confounds bk ?inp = Inr ?conf"
    using build_confounds_ok[of bk ?inp wm csf br movpar] assms by simp
  have r6: "rows6 movpar" using extract_rigid_movpar_rows6[OF mv] by simp
  have six: "\<forall>j<length wm. length (movpar ! j) = 6" using rows6_nth[OF r6] lmv by simp
  then have nine: "list_all (\<lambda>row. length row = 9) ?conf" by (simp add: list_all_iff)
  have "confounds_file (snd (run_interface bk ?inp fs))
          = Some (to_csv \<lparr> df_columns = csv_columns, df_index = [0..<length ?conf], df_data = ?conf \<rparr>)"
    using nine by (simp only: run_interface_confounds_file b sum.case if_True)
  also have "\<dots> = Some ((Text [] # map Text csv_columns)
                     # map (\<lambda>j. Index j # map Value (?conf ! j)) [0..<length ?conf])"
    by (simp only: to_csv_rows)
  finally have f: "confounds_file (snd (run_interface bk ?inp fs))
          = Some ((Text [] # map Text csv_columns)
                     # map (\<lambda>j. Index j # map Value (?conf ! j)) [0..<length ?conf])" .
  have m: "map (\<lambda>j. Index j # map Value (?conf ! j)) [0..<length ?conf]
            = map (\<lambda>j. Index j # map Value
                                 ([mean_flt (wm ! j), mean_flt (csf ! j), mean_flt (br ! j)]
                                  @ movpar ! j))
                           [0..<length wm]"
    by (rule nth_equalityI) simp_all
  show ?thesis using b six f unfolding m csv_columns_def by blast
qed

theorem run_interface_confound_table_witness:
  "confounds_file (snd (run_interface rec_backend (sample_inputs True) no_files))
     = Some [[Text [], Text ''WM_signal'', Text ''CSF_signal'', Text ''global_signal'',
              Text ''mov1'', Text ''mov2'', Text ''mov3'', Text ''rot1'', Text ''rot2'', Text ''rot3''],
             [Index 0, Value (Num 1), Value (Num 2), Value (Num 3), Value (Num 10), Value (Num 11),
              Value (Num 12), Value (Num 13), Value (Num 14), Value (Num 15)],
             [Index 1, Value (Num 4), Value (Num 5), Value (Num 6), Value (Num 20), Value (Num 21),
              Value (Num 22), Value (Num 23), Value (Num 24), Value (Num 25)]]"
proof -
  let ?inp = "sample_inputs False"
  have wm: "apply_mask rec_backend (bold ?inp) (WM_mask ?inp) = Inr [[Num 1], [Num 4]]"
    by code_simp
  have csf: "apply_mask rec_backend (bold ?inp) (CSF_mask ?inp) = Inr [[Num 2], [Num 5]]"
    by code_simp
  have br: "apply_mask rec_backend (bold ?inp) (brain_mask ?inp)
              = Inr [[Num 1, Num 2, Num 6], [Num 4, Num 5, Num 9]]"
    by code_simp
  have mv: "extract_rigid_movpar (pyfloat rec_backend) (movpar_file ?inp)
              = Inr [[Num 10, Num 11, Num 12, Num 13, Num 14, Num 15],
                     [Num 20, Num 21, Num 22, Num 23, Num 24, Num 25]]"
    by code_simp
  have flag: "?inp\<lparr>apply_GSR := True\<rparr> = sample_inputs True"
    by (simp add: sample_inputs_def)
  have means: "mean_flt [Num 1] = Num 1" "mean_flt [Num 4] = Num 4" "mean_flt [Num 2] = Num 2"
    "mean_flt [Num 5] = Num 5" "mean_flt [Num 1, Num 2, Num 6] = Num 3"
    "mean_flt [Num 4, Num 5, Num 9] = Num 6"
    by (simp_all add: mean_flt_def)
  show ?thesis
    using run_interface_confound_table[OF wm csf br mv, of True no_files]
    by (simp add: flag means upt_rec)
qed

subsection \<open>Failures of the engine\<close>

lemma rec_apply_mask_length:
  "rec_apply_mask (Series vols) (Mask m) = Inr sel \<Longrightarrow> length sel = length vols"
  by (auto split: if_splits)

lemma rec_apply_mask_empty:
  "\<not> list_ex (\<lambda>flag. flag) m \<Longrightarrow> rec_apply_mask (Series vols) (Mask m) = Inl ValueError"
  by simp

lemma rec_apply_mask_nonempty:
  "list_ex (\<lambda>flag. flag) m \<Longrightarrow> \<exists>sel. rec_apply_mask (Series vols) (Mask m) = Inr sel"
  by simp





section \<open>Properties of the workflow graphs\<close>

subsection \<open>The confound workflow\<close>

lemmas graph_unfold = Let_def connect_def Workflow_def
  prod.case list.map concat.simps append.simps workflow.select_convs workflow.update_convs
  if_True if_False fst_conv snd_conv

lemma confs_names_distinct:
  "distinct (map node_name (wf_nodes (init_bold_confs_wf gsr name)))"
  apply (cases gsr)
   apply (simp_all only: init_bold_confs_wf_def wf_nodes_def graph_unfold cong: if_weak_cong)
   apply simp_all
  done

lemma confs_GSR_present:
  "list_ex is_GSR_confound_regression (wf_nodes (init_bold_confs_wf gsr name)) = gsr"
proof -
  have "list_ex is_GSR_confound_regression (wf_nodes (init_bold_confs_wf gsr name))
          = list_ex is_GSR_confound_regression
              (concat (map (\<lambda>(src, out_port, dst, in_port). [src, dst])
                 (wf_edges (init_bold_confs_wf gsr name))))"
    by (simp only: wf_nodes_def list_ex_iff set_remdups)
  also have "\<dots> = gsr"
    apply (cases gsr)
     apply (simp_all only: init_bold_confs_wf_def graph_unfold list_ex_Nil_iff list_ex_Cons_iff
        is_GSR_confound_regression.simps simp_thms cong: if_weak_cong)
    done
  finally show ?thesis .
qed

lemma confs_GSR_touching:
  "wf_edges (named \<lparr> wf_name = name,
                      wf_edges = touching (init_bold_confs_wf gsr name) is_GSR_confound_regression \<rparr>)
     = (if gsr then
          [(''inputnode'', ''movpar_file'', ''GSR_confound_regression'', ''movpar_file''),
           (''skullstrip'', ''skullstrip_brain'', ''GSR_confound_regression'', ''bold''),
           (''WM_mask_EPI'', ''EPI_mask'', ''GSR_confound_regression'', ''WM_mask''),
           (''CSF_mask_EPI'', ''EPI_mask'', ''GSR_confound_regression'', ''CSF_mask''),
           (''Brain_mask_EPI'', ''EPI_mask'', ''GSR_confound_regression'', ''brain_mask''),
           (''GSR_confound_regression'', ''cleaned_bold'', ''outputnode'', ''GSR_cleaned_bold'')]
        else [])"
  apply (cases gsr)
   apply (simp_all only: init_bold_confs_wf_def touching_def named_def graph_unfold filter.simps
      is_GSR_confound_regression.simps node_name.simps simp_thms cong: if_weak_cong)
  done

lemma confs_named_edges:
  "wf_edges (named (init_bold_confs_wf gsr name)) =
     [(''inputnode'', ''WM_mask'', ''WM_mask_EPI'', ''mask''),
      (''inputnode'', ''ref_bold'', ''WM_mask_EPI'', ''ref_EPI''),
      (''inputnode'', ''CSF_mask'', ''CSF_mask_EPI'', ''mask''),
      (''inputnode'', ''ref_bold'', ''CSF_mask_EPI'', ''ref_EPI''),
      (''inputnode'', ''t1_mask'', ''Brain_mask_EPI'', ''mask''),
      (''inputnode'', ''ref_bold'', ''Brain_mask_EPI'', ''ref_EPI''),
      (''inputnode'', ''t1_labels'', ''prop_labels_EPI'', ''mask''),
      (''inputnode'', ''ref_bold'', ''prop_labels_EPI'', ''ref_EPI''),
      (''inputnode'', ''movpar_file'', ''confound_regression'', ''movpar_file''),
      (''inputnode'', ''bold'', ''skullstrip'', ''in_file''),
      (''Brain_mask_EPI'', ''EPI_mask'', ''skullstrip'', ''brain_mask''),
      (''skullstrip'', ''skullstrip_brain'', ''confound_regression'', ''bold''),
      (''WM_mask_EPI'', ''EPI_mask'', ''confound_regression'', ''WM_mask''),
      (''CSF_mask_EPI'', ''EPI_mask'', ''confound_regression'', ''CSF_mask''),
      (''Brain_mask_EPI'', ''EPI_mask'', ''confound_regression'', ''brain_mask''),
      (''prop_labels_EPI'', ''EPI_mask'', ''outputnode'', ''EPI_labels''),
      (''confound_regression'', ''cleaned_bold'', ''outputnode'', ''cleaned_bold''),
      (''confound_regression'', ''confounds_csv'', ''outputnode'', ''confounds_csv'')]
     @ (if gsr then
          [(''inputnode'', ''movpar_file'', ''GSR_confound_regression'', ''movpar_file''),
           (''skullstrip'', ''skullstrip_brain'', ''GSR_confound_regression'', ''bold''),
           (''WM_mask_EPI'', ''EPI_mask'', ''GSR_confound_regression'', ''WM_mask''),
           (''CSF_mask_EPI'', ''EPI_mask'', ''GSR_confound_regression'', ''CSF_mask''),
           (''Brain_mask_EPI'', ''EPI_mask'', ''GSR_confound_regression'', ''brain_mask''),
           (''GSR_confound_regression'', ''cleaned_bold'', ''outputnode'', ''GSR_cleaned_bold'')]
        else [])"
  by (cases gsr)
     (simp_all only: init_bold_confs_wf_def named_def graph_unfold node_name.simps
        cong: if_weak_cong)

lemma confs_regression_nodes:
  "filter is_confound_regression (wf_nodes (init_bold_confs_wf gsr name)) =
     Node (ConfoundRegression False False) ''confound_regression''
     # (if gsr then [Node (ConfoundRegression True False) ''GSR_confound_regression''] else [])"
proof -
  have "filter is_confound_regression (wf_nodes (init_bold_confs_wf gsr name))
          = remdups (filter is_confound_regression
              (concat (map (\<lambda>(src, out_port, dst, in_port). [src, dst])
                 (wf_edges (init_bold_confs_wf gsr name)))))"
    by (simp only: wf_nodes_def remdups_filter)
  also have "\<dots> = Node (ConfoundRegression False False) ''confound_regression''
     # (if gsr then [Node (ConfoundRegression True False) ''GSR_confound_regression''] else [])"
    apply (cases gsr)
     apply (simp_all only: init_bold_confs_wf_def graph_unfold filter.simps
        is_confound_regression.simps cong: if_weak_cong)
     apply simp_all
    done
  finally show ?thesis .
qed

subsection \<open>The main workflow\<close>

lemmas main_unfold = init_func_preproc_wf_def create_mem_gb_def graph_unfold mem_gb.select_convs

lemma nested_confs_main:
  "set (nested_confs (init_func_preproc_wf bold_file omp_nthreads use_syn TR stc iterative_N4 gsr name))
     = {init_bold_confs_wf gsr ''bold_confs_wf''}"
  apply (cases stc)
   apply (simp_all only: main_unfold nested_confs_def wf_nodes_def cong: if_weak_cong)
   apply (simp_all only: set_remdups set_concat set_map list.set image_insert image_empty confs_of.simps
      Union_insert Union_empty Un_empty_left Un_empty_right Un_insert_left Un_insert_right insert_absorb2 append.simps concat.simps)
  done

lemma main_stc_present:
  "list_ex is_stc (wf_nodes (init_func_preproc_wf bold_file omp_nthreads use_syn TR stc iterative_N4 gsr name)) = stc"
proof -
  have "list_ex is_stc (wf_nodes (init_func_preproc_wf bold_file omp_nthreads use_syn TR stc iterative_N4 gsr name))
          = list_ex is_stc
              (concat (map (\<lambda>(src, out_port, dst, in_port). [src, dst])
                 (wf_edges (init_func_preproc_wf bold_file omp_nthreads use_syn TR stc iterative_N4 gsr name))))"
    by (simp only: wf_nodes_def list_ex_iff set_remdups)
  also have "\<dots> = stc"
    apply (cases stc)
     apply (simp_all only: main_unfold list_ex_Nil_iff list_ex_Cons_iff is_stc.simps simp_thms
        cong: if_weak_cong)
    done
  finally show ?thesis .
qed

lemma main_stc_touching:
  "touching (init_func_preproc_wf bold_file omp_nthreads use_syn TR stc iterative_N4 gsr name) is_stc
     = (if stc then
          [(Bold_reference_wf, ''outputnode.skip_vols'', Bold_stc_wf TR, ''inputnode.skip_vols''),
           (Bold_reference_wf, ''outputnode.bold_file'', Bold_stc_wf TR, ''inputnode.bold_file''),
           (Bold_stc_wf TR, ''outputnode.stc_file'',
            PeNode (Node (IdentityInterface [''bold_file'']) ''boldbuffer''), ''bold_file'')]
        else [])"
  apply (cases stc)
   apply (simp_all only: main_unfold touching_def filter.simps is_stc.simps simp_thms
      cong: if_weak_cong)
  done

lemma main_shape:
  "shape (init_func_preproc_wf bold_file omp_nthreads use_syn TR stc iterative_N4 gsr name)
     = shape (init_func_preproc_wf bold_file' omp_nthreads use_syn TR stc iterative_N4 gsr name)"
  apply (cases stc)
   apply (simp_all only: main_unfold shape_def erase_mem.simps cong: if_weak_cong)
  done

subsection \<open>The two regression stages and their inputs\<close>

text \<open>
  C5: built with the global-signal flag, the confound workflow holds two
  \<open>ConfoundRegression\<close> nodes, \<open>confound_regression\<close> with the flag off and
  \<open>GSR_confound_regression\<close> with the flag on (node names are unique, so a name
  identifies a node). Both receive the same five inputs from the same producers. Their
  cleaned series feed the distinct outputs \<open>cleaned_bold\<close> and \<open>GSR_cleaned_bold\<close>. The
  only producer of the output \<open>confounds_csv\<close> is \<open>confound_regression\<close>, the only edge
  out of \<open>GSR_confound_regression\<close> carries its cleaned series, and on the same inputs the
  two runs of the engine leave the same confound table.
\<close>

theorem confs_wf_two_regressions:
  "filter is_confound_regression (wf_nodes (init_bold_confs_wf True name))
     = [Node (ConfoundRegression False False) ''confound_regression'',
        Node (ConfoundRegression True False) ''GSR_confound_regression'']
   \<and> distinct (map node_name (wf_nodes (init_bold_confs_wf True name)))
   \<and> incoming (named (init_bold_confs_wf True name)) ''confound_regression''
     = [(''inputnode'', ''movpar_file'', ''movpar_file''),
        (''skullstrip'', ''skullstrip_brain'', ''bold''),
        (''WM_mask_EPI'', ''EPI_mask'', ''WM_mask''),
        (''CSF_mask_EPI'', ''EPI_mask'', ''CSF_mask''),
        (''Brain_mask_EPI'', ''EPI_mask'', ''brain_mask'')]
   \<and> incoming (named (init_bold_confs_wf True name)) ''GSR_confound_regression''
     = incoming (named (init_bold_confs_wf True name)) ''confound_regression''
   \<and> producers (named (init_bold_confs_wf True name)) ''outputnode'' ''cleaned_bold''
     = [(''confound_regression'', ''cleaned_bold'')]
   \<and> producers (named (init_bold_confs_wf True name)) ''outputnode'' ''GSR_cleaned_bold''
     = [(''GSR_confound_regression'', ''cleaned_bold'')]
   \<and> producers (named (init_bold_confs_wf True name)) ''outputnode'' ''confounds_csv''
     = [(''confound_regression'', ''confounds_csv'')]
   \<and> outgoing (named (init_bold_confs_wf True name)) ''GSR_confound_regression''
     = [(''cleaned_bold'', ''outputnode'', ''GSR_cleaned_bold'')]
   \<and> confounds_file (snd (run_interface bk (inp\<lparr>apply_GSR := True\<rparr>) fs))
     = confounds_file (snd (run_interface bk (inp\<lparr>apply_GSR := False\<rparr>) fs))"
proof -
  let ?g = "named (init_bold_confs_wf True name)"
  have n: "filter is_confound_regression (wf_nodes (init_bold_confs_wf True name))
     = [Node (ConfoundRegression False False) ''confound_regression'',
        Node (ConfoundRegression True False) ''GSR_confound_regression'']"
    by (simp add: confs_regression_nodes)
  have d: "distinct (map node_name (wf_nodes (init_bold_confs_wf True name)))"
    by (rule confs_names_distinct)
  have i1: "incoming ?g ''confound_regression''
     = [(''inputnode'', ''movpar_file'', ''movpar_file''),
        (''skullstrip'', ''skullstrip_brain'', ''bold''),
        (''WM_mask_EPI'', ''EPI_mask'', ''WM_mask''),
        (''CSF_mask_EPI'', ''EPI_mask'', ''CSF_mask''),
        (''Brain_mask_EPI'', ''EPI_mask'', ''brain_mask'')]"
    by (simp add: incoming_def confs_named_edges)
  have i2: "incoming ?g ''GSR_confound_regression''
     = [(''inputnode'', ''movpar_file'', ''movpar_file''),
        (''skullstrip'', ''skullstrip_brain'', ''bold''),
        (''WM_mask_EPI'', ''EPI_mask'', ''WM_mask''),
        (''CSF_mask_EPI'', ''EPI_mask'', ''CSF_mask''),
        (''Brain_mask_EPI'', ''EPI_mask'', ''brain_mask'')]"
    by (simp add: incoming_def confs_named_edges)
  have p1: "producers ?g ''outputnode'' ''cleaned_bold'' = [(''confound_regression'', ''cleaned_bold'')]"
    by (simp add: producers_def confs_named_edges)
  have p2: "producers ?g ''outputnode'' ''GSR_cleaned_bold'' = [(''GSR_confound_regression'', ''cleaned_bold'')]"
    by (simp add: producers_def confs_named_edges)
  have p3: "producers ?g ''outputnode'' ''confounds_csv'' = [(''confound_regression'', ''confounds_csv'')]"
    by (simp add: producers_def confs_named_edges)
  have o: "outgoing ?g ''GSR_confound_regression'' = [(''cleaned_bold'', ''outputnode'', ''GSR_cleaned_bold'')]"
    by (simp add: outgoing_def confs_named_edges)
  have b: "build_confounds bk (inp\<lparr>apply_GSR := True\<rparr>) = build_confounds bk (inp\<lparr>apply_GSR := False\<rparr>)"
    by (simp add: build_confounds_def cong: sum.case_cong)
  have t: "confounds_file (snd (run_interface bk (inp\<lparr>apply_GSR := True\<rparr>) fs))
     = confounds_file (snd (run_interface bk (inp\<lparr>apply_GSR := False\<rparr>) fs))"
    by (simp only: run_interface_confounds_file b)
  show ?thesis using n d i1 i2 p1 p2 p3 o t by simp
qed

text \<open>
  C10: for either value of the flag, the \<open>bold\<close> input of every \<open>ConfoundRegression\<close>
  node of the confound workflow is fed by the output \<open>skullstrip_brain\<close> of the
  \<open>Skullstrip\<close> node and by nothing else; that node receives the workflow's input series
  and the brain mask resampled by \<open>Brain_mask_EPI\<close> (from the inputs \<open>t1_mask\<close> and
  \<open>ref_bold\<close>); the raw input series goes to the skull-stripping node only.
\<close>

theorem confs_wf_regression_input:
  "(\<forall>n\<in>set (wf_nodes (init_bold_confs_wf gsr name)).
       is_confound_regression n \<longrightarrow>
         producers (named (init_bold_confs_wf gsr name)) (node_name n) ''bold''
           = [(''skullstrip'', ''skullstrip_brain'')])
   \<and> Node Skullstrip ''skullstrip'' \<in> set (wf_nodes (init_bold_confs_wf gsr name))
   \<and> incoming (named (init_bold_confs_wf gsr name)) ''skullstrip''
     = [(''inputnode'', ''bold'', ''in_file''), (''Brain_mask_EPI'', ''EPI_mask'', ''brain_mask'')]
   \<and> incoming (named (init_bold_confs_wf gsr name)) ''Brain_mask_EPI''
     = [(''inputnode'', ''t1_mask'', ''mask''), (''inputnode'', ''ref_bold'', ''ref_EPI'')]
   \<and> consumers (named (init_bold_confs_wf gsr name)) ''inputnode'' ''bold''
     = [(''skullstrip'', ''in_file'')]"
proof -
  let ?g = "named (init_bold_confs_wf gsr name)"
  have a: "\<forall>n\<in>set (wf_nodes (init_bold_confs_wf gsr name)).
       is_confound_regression n \<longrightarrow>
         producers ?g (node_name n) ''bold'' = [(''skullstrip'', ''skullstrip_brain'')]"
  proof (intro ballI impI)
    fix n assume "n \<in> set (wf_nodes (init_bold_confs_wf gsr name))" and "is_confound_regression n"
    then have "n \<in> set (filter is_confound_regression (wf_nodes (init_bold_confs_wf gsr name)))"
      by simp
    then have "n = Node (ConfoundRegression False False) ''confound_regression''
               \<or> (gsr \<and> n = Node (ConfoundRegression True False) ''GSR_confound_regression'')"
      unfolding confs_regression_nodes by (auto split: if_splits)
    then show "producers ?g (node_name n) ''bold'' = [(''skullstrip'', ''skullstrip_brain'')]"
      by (auto simp: producers_def confs_named_edges)
  qed
  have s: "Node Skullstrip ''skullstrip'' \<in> set (wf_nodes (init_bold_confs_wf gsr name))"
    apply (cases gsr)
     apply (simp_all only: init_bold_confs_wf_def wf_nodes_def graph_unfold set_remdups
        list.set cong: if_weak_cong)
     apply (simp_all only: insert_iff simp_thms)
    done
  have i1: "incoming ?g ''skullstrip''
     = [(''inputnode'', ''bold'', ''in_file''), (''Brain_mask_EPI'', ''EPI_mask'', ''brain_mask'')]"
    by (simp add: incoming_def confs_named_edges)
  have i2: "incoming ?g ''Brain_mask_EPI''
     = [(''inputnode'', ''t1_mask'', ''mask''), (''inputnode'', ''ref_bold'', ''ref_EPI'')]"
    by (simp add: incoming_def confs_named_edges)
  have c: "consumers ?g ''inputnode'' ''bold'' = [(''skullstrip'', ''in_file'')]"
    by (simp add: consumers_def confs_named_edges)
  show ?thesis using a s i1 i2 c by blast
qed

theorem confs_wf_regression_input_witness:
  "producers (named (init_bold_confs_wf True ''bold_confs_wf'')) ''GSR_confound_regression'' ''bold''
     = [(''skullstrip'', ''skullstrip_brain'')]
   \<and> producers (named (init_bold_confs_wf False ''bold_confs_wf'')) ''confound_regression'' ''bold''
     = [(''skullstrip'', ''skullstrip_brain'')]"
proof -
  have m1: "Node (ConfoundRegression True False) ''GSR_confound_regression''
          \<in> set (filter is_confound_regression (wf_nodes (init_bold_confs_wf True ''bold_confs_wf'')))"
    by (simp add: confs_regression_nodes)
  have m2: "Node (ConfoundRegression False False) ''confound_regression''
          \<in> set (filter is_confound_regression (wf_nodes (init_bold_confs_wf False ''bold_confs_wf'')))"
    by (simp add: confs_regression_nodes)
  from m1 have h1: "Node (ConfoundRegression True False) ''GSR_confound_regression''
          \<in> set (wf_nodes (init_bold_confs_wf True ''bold_confs_wf''))" by simp
  from m2 have h2: "Node (ConfoundRegression False False) ''confound_regression''
          \<in> set (wf_nodes (init_bold_confs_wf False ''bold_confs_wf''))" by simp
  have p1: "producers (named (init_bold_confs_wf True ''bold_confs_wf''))
              (node_name (Node (ConfoundRegression True False) ''GSR_confound_regression'')) ''bold''
            = [(''skullstrip'', ''skullstrip_brain'')]"
    using confs_wf_regression_input[of True "''bold_confs_wf''"] h1 by force
  have p2: "producers (named (init_bold_confs_wf False ''bold_confs_wf''))
              (node_name (Node (ConfoundRegression False False) ''confound_regression'')) ''bold''
            = [(''skullstrip'', ''skullstrip_brain'')]"
    using confs_wf_regression_input[of False "''bold_confs_wf''"] h2 by force
  show ?thesis using p1 p2 by simp
qed

subsection \<open>Flag-gated stages\<close>

text \<open>
  C7: a slice-timing stage is among the stages of the main workflow exactly when
  \<open>apply_STC\<close> is set, and the edges that touch such a stage are the three edges of the
  gated \<open>connect\<close> call with the flag and none without it. The main workflow nests the
  confound workflow built with its own \<open>apply_GSR\<close>; a regression node with the
  global-signal flag is among the nodes of the confound workflow exactly when \<open>apply_GSR\<close>
  is set, and the edges that touch it are the six edges of the gated \<open>connect\<close> call with
  the flag and none without it. The input file, read at construction for the memory
  estimates, changes the memory annotations only: with them erased, the graph is the
  same for any two files.
\<close>

theorem flag_gated_stages:
  "list_ex is_stc
      (wf_nodes (init_func_preproc_wf bold_file omp_nthreads use_syn TR stc iterative_N4 gsr name))
     = stc
   \<and> touching (init_func_preproc_wf bold_file omp_nthreads use_syn TR stc iterative_N4 gsr name)
        is_stc
     = (if stc then
          [(Bold_reference_wf, ''outputnode.skip_vols'', Bold_stc_wf TR, ''inputnode.skip_vols''),
           (Bold_reference_wf, ''outputnode.bold_file'', Bold_stc_wf TR, ''inputnode.bold_file''),
           (Bold_stc_wf TR, ''outputnode.stc_file'',
            PeNode (Node (IdentityInterface [''bold_file'']) ''boldbuffer''), ''bold_file'')]
        else [])
   \<and> set (nested_confs
          (init_func_preproc_wf bold_file omp_nthreads use_syn TR stc iterative_N4 gsr name))
     = {init_bold_confs_wf gsr ''bold_confs_wf''}
   \<and> list_ex is_GSR_confound_regression (wf_nodes (init_bold_confs_wf gsr confs_name)) = gsr
   \<and> wf_edges (named \<lparr> wf_name = confs_name,
                        wf_edges = touching (init_bold_confs_wf gsr confs_name)
                                     is_GSR_confound_regression \<rparr>)
     = (if gsr then
          [(''inputnode'', ''movpar_file'', ''GSR_confound_regression'', ''movpar_file''),
           (''skullstrip'', ''skullstrip_brain'', ''GSR_confound_regression'', ''bold''),
           (''WM_mask_EPI'', ''EPI_mask'', ''GSR_confound_regression'', ''WM_mask''),
           (''CSF_mask_EPI'', ''EPI_mask'', ''GSR_confound_regression'', ''CSF_mask''),
           (''Brain_mask_EPI'', ''EPI_mask'', ''GSR_confound_regression'', ''brain_mask''),
           (''GSR_confound_regression'', ''cleaned_bold'', ''outputnode'', ''GSR_cleaned_bold'')]
        else [])
   \<and> shape (init_func_preproc_wf bold_file omp_nthreads use_syn TR stc iterative_N4 gsr name)
     = shape (init_func_preproc_wf bold_file' omp_nthreads use_syn TR stc iterative_N4 gsr name)"
  by (intro conjI main_stc_present main_stc_touching nested_confs_main confs_GSR_present
        confs_GSR_touching main_shape)

subsection \<open>The sampling interval of the cleaning step\<close>

text \<open>
  C3, as stated, fails: the \<open>t_r\<close> handed to \<open>clean_img\<close> is not the repetition time
  given to the pipeline. A pipeline built with \<open>TR = 2\<close> nests the confound workflow with
  the node \<open>confound_regression\<close>; run on the sample inputs (with the node's flags), the
  engine calls \<open>clean_img\<close> with \<open>t_r = 1.2\<close>.
\<close>

theorem clean_bold_sampling_interval_counterexample:
  "set (nested_confs (init_func_preproc_wf (2 ^ 31, 100) 1 False 2 False True False ''main_wf''))
     = {init_bold_confs_wf False ''bold_confs_wf''}
   \<and> filter is_confound_regression (wf_nodes (init_bold_confs_wf False ''bold_confs_wf''))
     = [Node (ConfoundRegression False False) ''confound_regression'']
   \<and> apply_GSR (sample_inputs False) = False
   \<and> motioncorr_24params (sample_inputs False) = False
   \<and> map_option t_r
        (Option.bind (cleaned_file (snd (run_interface rec_backend (sample_inputs False) no_files)))
           clean_args_of)
     = Some (12 / 10)
   \<and> (12 / 10 :: rat) \<noteq> 2"
proof -
  have a: "set (nested_confs (init_func_preproc_wf (2 ^ 31, 100) 1 False 2 False True False ''main_wf''))
     = {init_bold_confs_wf False ''bold_confs_wf''}"
    by (rule nested_confs_main)
  have b: "filter is_confound_regression (wf_nodes (init_bold_confs_wf False ''bold_confs_wf''))
     = [Node (ConfoundRegression False False) ''confound_regression'']"
    by (simp add: confs_regression_nodes)
  have c: "apply_GSR (sample_inputs False) = False \<and> motioncorr_24params (sample_inputs False) = False"
    by (simp add: sample_inputs_def)
  have d: "map_option t_r
        (Option.bind (cleaned_file (snd (run_interface rec_backend (sample_inputs False) no_files)))
           clean_args_of)
     = Some (12 / 10)"
    by code_simp
  show ?thesis using a b c d by simp
qed

text \<open>
  C3, amended: whatever repetition time \<open>TR\<close> (and other configuration) the pipeline is
  built with, its confound workflow does not depend on \<open>TR\<close>, and every run of one of its
  regression nodes that returns has called \<open>clean_img\<close> on the input series with linear
  detrending, variance standardization, a high-pass cutoff of 0.01 and the fixed
  \<open>t_r = 1.2\<close>, and has written the result smoothed with kernel 0.3.
\<close>

theorem clean_bold_fixed_parameters:
  assumes "g \<in> set (nested_confs
              (init_func_preproc_wf bold_file omp_nthreads use_syn TR stc iterative_N4 gsr name))"
    and "Node (ConfoundRegression a m) node_nm \<in> set (wf_nodes g)"
    and "run_interface bk (inp\<lparr>apply_GSR := a, motioncorr_24params := m\<rparr>) fs = (Inr out, fs')"
  shows "g = init_bold_confs_wf gsr ''bold_confs_wf''
         \<and> (\<exists>conf regressed cleaned.
               clean_img bk (bold inp)
                  \<lparr> detrend = True, standardize = True, high_pass = 1 / 100,
                    confounds = conf, t_r = 12 / 10 \<rparr> = Inr regressed
               \<and> smooth_img bk regressed (3 / 10) = Inr cleaned
               \<and> cleaned_file fs' = Some cleaned)"
proof -
  have g: "g = init_bold_confs_wf gsr ''bold_confs_wf''"
    using assms(1) unfolding nested_confs_main by simp
  show ?thesis using g run_interface_success[OF assms(3)] by auto
qed

theorem clean_bold_fixed_parameters_witness:
  "\<exists>conf regressed cleaned.
      clean_img rec_backend (bold (sample_inputs True))
         \<lparr> detrend = True, standardize = True, high_pass = 1 / 100,
           confounds = conf, t_r = 12 / 10 \<rparr> = Inr regressed
      \<and> smooth_img rec_backend regressed (3 / 10) = Inr cleaned
      \<and> cleaned_file (snd (run_interface rec_backend (sample_inputs True) no_files)) = Some cleaned"
proof -
  let ?w = "init_func_preproc_wf (2 ^ 31, 100) 1 False 2 True True True ''main_wf''"
  let ?g = "init_bold_confs_wf True ''bold_confs_wf''"
  have h1: "?g \<in> set (nested_confs ?w)" by (simp only: nested_confs_main insert_iff simp_thms)
  have "Node (ConfoundRegression True False) ''GSR_confound_regression''
          \<in> set (filter is_confound_regression (wf_nodes ?g))"
    by (simp add: confs_regression_nodes)
  then have h2: "Node (ConfoundRegression True False) ''GSR_confound_regression'' \<in> set (wf_nodes ?g)"
    by simp
  have flags: "(sample_inputs True)\<lparr>apply_GSR := True, motioncorr_24params := False\<rparr> = sample_inputs True"
    by (simp add: sample_inputs_def)
  have run: "run_interface rec_backend (sample_inputs True) no_files
       = (Inr \<lparr> cleaned_bold = ''cleaned.nii.gz'', confounds_csv = ''confounds.csv'' \<rparr>,
          snd (run_interface rec_backend (sample_inputs True) no_files))"
    by code_simp
  have h3: "run_interface rec_backend ((sample_inputs True)\<lparr>apply_GSR := True, motioncorr_24params := False\<rparr>) no_files
       = (Inr \<lparr> cleaned_bold = ''cleaned.nii.gz'', confounds_csv = ''confounds.csv'' \<rparr>,
          snd (run_interface rec_backend (sample_inputs True) no_files))"
    unfolding flags by (rule run)
  show ?thesis using clean_bold_fixed_parameters[OF h1 h2 h3] by simp
qed

subsection \<open>Writing and reading the confound table\<close>

text \<open>
  C8, as stated, fails: \<open>to_csv\<close> writes the data frame's index as a leading unnamed
  column, so the table read back from the file has 10 columns, not the 9 that were
  written.
\<close>

theorem confound_table_round_trip_counterexample:
  "Option.bind (confounds_file (snd (write_confound_csv sample_confounds csv_columns no_files)))
      read_csv
     = Some \<lparr> tb_columns =
                [Text [], Text ''WM_signal'', Text ''CSF_signal'', Text ''global_signal'',
                 Text ''mov1'', Text ''mov2'', Text ''mov3'', Text ''rot1'', Text ''rot2'',
                 Text ''rot3''],
              tb_rows =
                [[Index 0, Value (Num 1), Value (Num 2), Value (Num 3), Value (Num 10),
                  Value (Num 11), Value (Num 12), Value (Num 13), Value (Num 14), Value (Num 15)],
                 [Index 1, Value (Num 4), Value (Num 5), Value (Num 6), Value (Num 20),
                  Value (Num 21), Value (Num 22), Value (Num 23), Value (Num 24), Value (Num 25)]] \<rparr>
   \<and> map_option (\<lambda>t. length (tb_columns t))
        (Option.bind (confounds_file (snd (write_confound_csv sample_confounds csv_columns no_files)))
           read_csv)
     = Some 10
   \<and> map_option tb_columns
        (Option.bind (confounds_file (snd (write_confound_csv sample_confounds csv_columns no_files)))
           read_csv)
     \<noteq> Some (map Text csv_columns)"
  by code_simp

text \<open>
  C8, amended: for every confound matrix with \<open>N\<close> rows of 9 columns, the table read
  back from the written file has an unnamed leading column holding the row numbers
  \<open>0..N-1\<close>, followed by the same 9 labelled columns in the same order, and \<open>N\<close> rows;
  without its leading column it is the matrix that was written.
\<close>

theorem confound_table_round_trip:
  assumes "list_all (\<lambda>row. length row = 9) conf"
  shows "\<exists>t. Option.bind (confounds_file (snd (write_confound_csv conf csv_columns fs))) read_csv
               = Some t
             \<and> tb_columns t = Text [] # map Text csv_columns
             \<and> length (tb_rows t) = length conf
             \<and> map tl (tb_rows t) = map (map Value) conf
             \<and> map hd (tb_rows t) = map Index [0..<length conf]"
proof -
  let ?t = "\<lparr> tb_columns = Text [] # map Text csv_columns,
              tb_rows = map (\<lambda>j. Index j # map Value (conf ! j)) [0..<length conf] \<rparr>"
  have w: "confounds_file (snd (write_confound_csv conf csv_columns fs))
             = Some ((Text [] # map Text csv_columns)
                     # map (\<lambda>j. Index j # map Value (conf ! j)) [0..<length conf])"
    using assms by (simp add: write_confound_csv_def length_csv_columns Let_def to_csv_rows)
  have r: "Option.bind (confounds_file (snd (write_confound_csv conf csv_columns fs))) read_csv = Some ?t"
    by (simp only: w Option.bind.simps read_csv.simps)
  have m1: "map tl (tb_rows ?t) = map (map Value) conf"
    by (rule nth_equalityI) simp_all
  have m2: "map hd (tb_rows ?t) = map Index [0..<length conf]"
    by (rule nth_equalityI) simp_all
  show ?thesis using r m1 m2 by (intro exI[of _ ?t]) simp
qed

theorem confound_table_round_trip_witness:
  "list_all (\<lambda>row. length row = 9) sample_confounds
   \<and> (\<exists>t. Option.bind (confounds_file (snd (write_confound_csv sample_confounds csv_columns no_files)))
               read_csv = Some t
           \<and> tb_columns t = Text [] # map Text csv_columns
           \<and> length (tb_rows t) = length sample_confounds
           \<and> map tl (tb_rows t) = map (map Value) sample_confounds
           \<and> map hd (tb_rows t) = map Index [0..<length sample_confounds])"
proof -
  have h: "list_all (\<lambda>row. length row = 9) sample_confounds"
    by (simp add: sample_confounds_def)
  show ?thesis using h confound_table_round_trip[OF h, of no_files] by blast
qed

end
